theory Spec2Isabelle
  imports Complex_Main "HOL-Library.Word"
begin

unbundle bit_operations_syntax

section \<open>Python values and built-ins used by the coordinator\<close>

text \<open>
  The raw data of one poll is a Python \<^verbatim>\<open>Dict[str, Any]\<close>. The values the decoders tell
  apart are integers, booleans, strings and \<^verbatim>\<open>None\<close>. A \<^verbatim>\<open>str\<close> is modelled by the list of
  its code points, restricted to code points below 256 (a HOL character is 8 bits wide).
  Floats are outside the input contract of the decoding layer and are not modelled.
\<close>

datatype py_value = PyInt int | PyBool bool | PyStr string | PyNone

datatype py_exception = ValueError | TypeError | BinasciiError

type_synonym byte = "8 word"

text \<open>
  A dict keeps its insertion order, so it is an association list; \<^verbatim>\<open>key in d\<close> and
  \<^verbatim>\<open>d[key]\<close> read the first entry for the key.
\<close>

type_synonym raw_sample = "(string \<times> py_value) list"

definition py_contains :: "raw_sample \<Rightarrow> string \<Rightarrow> bool" where
  "py_contains d k = (map_of d k \<noteq> None)"

definition py_keys :: "raw_sample \<Rightarrow> string list" where
  "py_keys d = map fst d"

subsection \<open>\<^verbatim>\<open>int(x)\<close>\<close>

text \<open>
  \<^verbatim>\<open>int(s)\<close> for a string, base 10, as CPython reads it: white space around the literal is
  skipped (the ASCII white space of \<^verbatim>\<open>Py_ISSPACE\<close>, and the two Unicode spaces below 256,
  U+0085 and U+00A0, which are turned into blanks first), one sign is allowed, the digits
  may be separated by single underscores, there is at least one digit, and at most
  \<open>int_max_str_digits\<close> of them (the interpreter's default limit). Anything else raises
  \<^verbatim>\<open>ValueError\<close>.
\<close>

definition is_int_space :: "char \<Rightarrow> bool" where
  "is_int_space c = ((of_char c :: nat) \<in> {9, 10, 11, 12, 13, 32, 133, 160})"

definition is_digit :: "char \<Rightarrow> bool" where
  "is_digit c = (48 \<le> (of_char c :: nat) \<and> (of_char c :: nat) \<le> 57)"

definition is_digit_or_underscore :: "char \<Rightarrow> bool" where
  "is_digit_or_underscore c = (is_digit c \<or> c = CHR ''_'')"

definition int_max_str_digits :: nat where
  "int_max_str_digits = 4300"

fun underscores_ok :: "string \<Rightarrow> bool" where
  "underscores_ok [] = True"
| "underscores_ok [c] = (c \<noteq> CHR ''_'')"
| "underscores_ok (c # d # r) =
     (\<not> (c = CHR ''_'' \<and> d = CHR ''_'') \<and> underscores_ok (d # r))"

definition digits_value :: "string \<Rightarrow> int" where
  "digits_value ds = foldl (\<lambda>acc c. 10 * acc + (int (of_char c) - 48)) 0 ds"

definition int_of_str :: "string \<Rightarrow> py_exception + int" where
  "int_of_str s =
     (let t = dropWhile is_int_space s;
          neg = (t \<noteq> [] \<and> hd t = CHR ''-'');
          u = (if t \<noteq> [] \<and> (hd t = CHR ''+'' \<or> hd t = CHR ''-'') then tl t else t);
          body = takeWhile is_digit_or_underscore u;
          rest = dropWhile is_digit_or_underscore u;
          ds = filter is_digit body
      in if body \<noteq> [] \<and> hd body \<noteq> CHR ''_'' \<and> underscores_ok body
            \<and> length ds \<le> int_max_str_digits
            \<and> dropWhile is_int_space rest = []
         then Inr ((if neg then - 1 else 1) * digits_value ds)
         else Inl ValueError)"

fun py_int :: "py_value \<Rightarrow> py_exception + int" where
  "py_int (PyInt i) = Inr i"
| "py_int (PyBool b) = Inr (if b then 1 else 0)"
| "py_int (PyStr s) = int_of_str s"
| "py_int PyNone = Inl TypeError"

subsection \<open>\<^verbatim>\<open>bool(x)\<close>, \<^verbatim>\<open>isinstance\<close>\<close>

fun py_bool :: "py_value \<Rightarrow> bool" where
  "py_bool (PyInt i) = (i \<noteq> 0)"
| "py_bool (PyBool b) = b"
| "py_bool (PyStr s) = (s \<noteq> [])"
| "py_bool PyNone = False"

text \<open>\<^verbatim>\<open>bool\<close> is a subclass of \<^verbatim>\<open>int\<close>: \<^verbatim>\<open>isinstance(True, int)\<close> holds, and a boolean
  used as a number is 1 or 0.\<close>

fun isinstance_int :: "py_value \<Rightarrow> int option" where
  "isinstance_int (PyInt i) = Some i"
| "isinstance_int (PyBool b) = Some (if b then 1 else 0)"
| "isinstance_int (PyStr s) = None"
| "isinstance_int PyNone = None"

fun isinstance_str :: "py_value \<Rightarrow> string option" where
  "isinstance_str (PyStr s) = Some s"
| "isinstance_str (PyInt i) = None"
| "isinstance_str (PyBool b) = None"
| "isinstance_str PyNone = None"

subsection \<open>\<^verbatim>\<open>base64.b64decode\<close>\<close>

text \<open>
  \<^verbatim>\<open>base64.b64decode(s)\<close> with its default arguments: a string with a non-ASCII character
  raises \<^verbatim>\<open>ValueError\<close>; otherwise \<^verbatim>\<open>binascii.a2b_base64\<close> runs in its lenient mode.
  Characters outside the alphabet are skipped. A pad character ends the data once the
  current group of four is complete with it (one pad after three data characters, two
  after two); other pad characters are skipped. Input that ends inside a group raises
  \<^verbatim>\<open>binascii.Error\<close>.
\<close>

definition table_a2b_base64 :: "char \<Rightarrow> byte option" where
  "table_a2b_base64 c =
     (let n = (of_char c :: nat) in
      if 65 \<le> n \<and> n \<le> 90 then Some (of_nat (n - 65))
      else if 97 \<le> n \<and> n \<le> 122 then Some (of_nat (n - 71))
      else if 48 \<le> n \<and> n \<le> 57 then Some (of_nat (n + 4))
      else if n = 43 then Some 62
      else if n = 47 then Some 63
      else None)"

fun a2b_base64 :: "nat \<Rightarrow> byte \<Rightarrow> nat \<Rightarrow> byte list \<Rightarrow> string \<Rightarrow> py_exception + byte list" where
  "a2b_base64 quad_pos leftchar pads bin [] =
     (if quad_pos \<noteq> 0 then Inl BinasciiError else Inr bin)"
| "a2b_base64 quad_pos leftchar pads bin (c # cs) =
     (if c = CHR ''='' then
        (if 2 \<le> quad_pos \<and> 4 \<le> quad_pos + (pads + 1) then Inr bin
         else a2b_base64 quad_pos leftchar (if 2 \<le> quad_pos then pads + 1 else pads) bin cs)
      else
        (case table_a2b_base64 c of
           None \<Rightarrow> a2b_base64 quad_pos leftchar pads bin cs
         | Some this_ch \<Rightarrow>
            (if quad_pos = 0 then a2b_base64 1 this_ch 0 bin cs
             else if quad_pos = 1 then
               a2b_base64 2 (this_ch AND 15) 0
                 (bin @ [push_bit 2 leftchar OR drop_bit 4 this_ch]) cs
             else if quad_pos = 2 then
               a2b_base64 3 (this_ch AND 3) 0
                 (bin @ [push_bit 4 leftchar OR drop_bit 2 this_ch]) cs
             else
               a2b_base64 0 0 0 (bin @ [push_bit 6 leftchar OR this_ch]) cs)))"

definition b64decode :: "string \<Rightarrow> py_exception + byte list" where
  "b64decode s =
     (if list_ex (\<lambda>c. 128 \<le> (of_char c :: nat)) s then Inl ValueError
      else a2b_base64 0 0 0 [] s)"

section \<open>Constants (const.py)\<close>

definition MONITORED_KEYS :: "string list" where
  "MONITORED_KEYS =
     [''163'', ''167'', ''177'', ''178'', ''168'', ''153'',
      ''152'', ''158'', ''154'', ''155'', ''160'', ''173'']"

definition CLEAN_SPEED_NAMES :: "string list" where
  "CLEAN_SPEED_NAMES = [''quiet'', ''standard'', ''turbo'', ''max'']"

definition WORK_STATUS_MAP :: "(int \<times> string) list" where
  "WORK_STATUS_MAP =
     [(0, ''standby''), (1, ''sleep''), (2, ''fault''), (3, ''charging''),
      (4, ''fast_mapping''), (5, ''cleaning''), (6, ''remote_ctrl''),
      (7, ''go_home''), (8, ''cruising'')]"

section \<open>The coordinator (coordinator.py)\<close>

text \<open>
  \<open>parsed\<close> is the dict that \<^verbatim>\<open>_process_data\<close> builds; the coordinator record holds the
  attributes of \<^verbatim>\<open>EufyX10DebugCoordinator\<close> that the processing reads and writes. Log
  lines are left out: the logging calls neither change an attribute nor raise.
\<close>

record parsed =
  device_id :: string
  battery :: "int option"
  water_tank :: "int option"
  clean_speed :: "string option"
  work_status :: "string option"
  play_pause :: "bool option"
  raw_keys :: "string list"
  monitored_keys_found :: "string list"
  monitored_keys_missing :: "string list"
  last_update :: real
  update_count :: int

record coordinator =
  self_device_id :: string
  debug_mode :: bool
  raw_data :: raw_sample
  parsed_data :: parsed
  self_update_count :: int

definition set_parsed :: "(parsed \<Rightarrow> parsed) \<Rightarrow> coordinator \<Rightarrow> coordinator" where
  "set_parsed f self = self\<lparr>parsed_data := f (parsed_data self)\<rparr>"

text \<open>
  Each \<^verbatim>\<open>_process_*\<close> method returns the coordinator after the call, or the exception
  that leaves the method. \<^verbatim>\<open>_process_battery\<close> catches \<^verbatim>\<open>(ValueError, TypeError)\<close>; the
  other four catch \<^verbatim>\<open>Exception\<close>. (\<^verbatim>\<open>binascii.Error\<close> is raised by the base64 decoder
  only, which \<^verbatim>\<open>_process_battery\<close> does not call.)
\<close>

definition process_battery :: "coordinator \<Rightarrow> py_exception + coordinator" where
  "process_battery self =
     (case map_of (raw_data self) ''163'' of
        None \<Rightarrow> Inr self
      | Some raw \<Rightarrow>
         (case py_int raw of
            Inr battery_raw \<Rightarrow>
              Inr (set_parsed (\<lambda>p. p\<lparr>battery := Some (max 0 (min 100 battery_raw))\<rparr>) self)
          | Inl e \<Rightarrow> if e = ValueError \<or> e = TypeError then Inr self else Inl e))"

text \<open>
  \<^verbatim>\<open>int((raw_value * 100) / 255)\<close> divides two integers as floats and truncates. For a
  byte, \<open>raw_value * 100\<close> is at most 25500, and the quotient by 255 is either an integer
  or at least 1/255 away from one, far more than the rounding error of a double: the
  truncated quotient is the integer quotient.
\<close>

definition process_water_tank :: "coordinator \<Rightarrow> py_exception + coordinator" where
  "process_water_tank self =
     (case map_of (raw_data self) ''167'' of
        None \<Rightarrow> Inr self
      | Some base64_data \<Rightarrow>
         (case isinstance_str base64_data of
            None \<Rightarrow> Inr self
          | Some s \<Rightarrow>
             (case b64decode s of
                Inl e \<Rightarrow> Inr self
              | Inr binary_data \<Rightarrow>
                 (if length binary_data > 4 then
                    (let raw_value = uint (binary_data ! 4);
                         water_pct = min 100 ((raw_value * 100) div 255)
                     in Inr (set_parsed (\<lambda>p. p\<lparr>water_tank := Some water_pct\<rparr>) self))
                  else Inr self))))"

definition process_clean_speed :: "coordinator \<Rightarrow> py_exception + coordinator" where
  "process_clean_speed self =
     (case map_of (raw_data self) ''158'' of
        None \<Rightarrow> Inr self
      | Some speed_raw \<Rightarrow>
         (case isinstance_int speed_raw of
            None \<Rightarrow> Inr self
          | Some i \<Rightarrow>
             (if 0 \<le> i \<and> i < int (length CLEAN_SPEED_NAMES) then
                Inr (set_parsed (\<lambda>p. p\<lparr>clean_speed := Some (CLEAN_SPEED_NAMES ! nat i)\<rparr>) self)
              else Inr self)))"

definition process_work_status :: "coordinator \<Rightarrow> py_exception + coordinator" where
  "process_work_status self =
     (case map_of (raw_data self) ''153'' of
        None \<Rightarrow> Inr self
      | Some status_raw \<Rightarrow>
         (case isinstance_int status_raw of
            None \<Rightarrow> Inr self
          | Some i \<Rightarrow>
             (case map_of WORK_STATUS_MAP i of
                None \<Rightarrow> Inr self
              | Some status_name \<Rightarrow>
                  Inr (set_parsed (\<lambda>p. p\<lparr>work_status := Some status_name\<rparr>) self))))"

definition process_play_pause :: "coordinator \<Rightarrow> py_exception + coordinator" where
  "process_play_pause self =
     (case map_of (raw_data self) ''152'' of
        None \<Rightarrow> Inr self
      | Some raw \<Rightarrow> Inr (set_parsed (\<lambda>p. p\<lparr>play_pause := Some (py_bool raw)\<rparr>) self))"

text \<open>The loop over \<^verbatim>\<open>MONITORED_KEYS\<close> that sorts each key into one of the two lists.\<close>

fun check_monitored :: "string list \<Rightarrow> coordinator \<Rightarrow> coordinator" where
  "check_monitored [] self = self"
| "check_monitored (key # keys) self =
     check_monitored keys
       (if py_contains (raw_data self) key
        then set_parsed (\<lambda>p. p\<lparr>monitored_keys_found := monitored_keys_found p @ [key]\<rparr>) self
        else set_parsed (\<lambda>p. p\<lparr>monitored_keys_missing := monitored_keys_missing p @ [key]\<rparr>) self)"

definition and_then ::
  "py_exception + coordinator \<Rightarrow> (coordinator \<Rightarrow> py_exception + coordinator)
     \<Rightarrow> py_exception + coordinator" where
  "and_then r f = (case r of Inl e \<Rightarrow> Inl e | Inr self \<Rightarrow> f self)"

definition fresh_parsed :: "coordinator \<Rightarrow> real \<Rightarrow> parsed" where
  "fresh_parsed self now =
     \<lparr>device_id = self_device_id self,
      battery = None,
      water_tank = None,
      clean_speed = None,
      work_status = None,
      play_pause = None,
      raw_keys = py_keys (raw_data self),
      monitored_keys_found = [],
      monitored_keys_missing = [],
      last_update = now,
      update_count = self_update_count self\<rparr>"

text \<open>\<^verbatim>\<open>_process_data\<close>; \<open>now\<close> is the reading of \<^verbatim>\<open>time.time()\<close>.\<close>

definition process_data :: "coordinator \<Rightarrow> real \<Rightarrow> py_exception + coordinator" where
  "process_data self now =
     and_then (and_then (and_then (and_then
       (process_battery
          (check_monitored MONITORED_KEYS (self\<lparr>parsed_data := fresh_parsed self now\<rparr>)))
       process_water_tank) process_clean_speed) process_work_status) process_play_pause"

text \<open>
  \<open>init_coordinator\<close> is the state \<^verbatim>\<open>__init__\<close> leaves (the empty dict \<^verbatim>\<open>{}\<close> of
  \<^verbatim>\<open>parsed_data\<close> is the record with no field set); \<open>holding raw\<close> is that coordinator
  once a fetch has stored \<open>raw\<close> in \<^verbatim>\<open>raw_data\<close>.
\<close>

definition empty_parsed :: parsed where
  "empty_parsed =
     \<lparr>device_id = [], battery = None, water_tank = None, clean_speed = None,
      work_status = None, play_pause = None, raw_keys = [],
      monitored_keys_found = [], monitored_keys_missing = [],
      last_update = 0, update_count = 0\<rparr>"

definition init_coordinator :: "string \<Rightarrow> bool \<Rightarrow> coordinator" where
  "init_coordinator dev dbg =
     \<lparr>self_device_id = dev, debug_mode = dbg, raw_data = [],
      parsed_data = empty_parsed, self_update_count = 0\<rparr>"

definition holding :: "raw_sample \<Rightarrow> coordinator" where
  "holding raw = (init_coordinator ''x10'' True)\<lparr>raw_data := raw\<rparr>"

section \<open>The base64 encoding\<close>

text \<open>
  The standard encoding (RFC 4648, the output of \<^verbatim>\<open>base64.b64encode\<close>): three bytes
  become four characters of the alphabet, a last group of one or two bytes is padded
  with \<^verbatim>\<open>=\<close>. It states which strings are the base64 encoding of a byte sequence.
\<close>

definition table_b2a_base64 :: string where
  "table_b2a_base64 =
     ''ABCDEFGHIJKLMNOPQRSTUVWXYZabcdefghijklmnopqrstuvwxyz0123456789+/''"

definition b2a :: "byte \<Rightarrow> char" where
  "b2a v = table_b2a_base64 ! unat v"

fun b64encode :: "byte list \<Rightarrow> string" where
  "b64encode [] = []"
| "b64encode [a] =
     [b2a (drop_bit 2 a), b2a (push_bit 4 (a AND 3)), CHR ''='', CHR ''='']"
| "b64encode [a, b] =
     [b2a (drop_bit 2 a), b2a (push_bit 4 (a AND 3) OR drop_bit 4 b),
      b2a (push_bit 2 (b AND 15)), CHR ''='']"
| "b64encode (a # b # c # r) =
     [b2a (drop_bit 2 a), b2a (push_bit 4 (a AND 3) OR drop_bit 4 b),
      b2a (push_bit 2 (b AND 15) OR drop_bit 6 c), b2a (c AND 63)] @ b64encode r"

text \<open>A value of six bits, the range of the alphabet.\<close>

definition sextet :: "byte \<Rightarrow> bool" where
  "sextet v = (unat v < 64)"

text \<open>
  A string is well-formed base64 when its length is a multiple of four, it consists of
  characters of the alphabet, and only its end is padding: nothing, \<^verbatim>\<open>=\<close> or \<^verbatim>\<open>==\<close>.
\<close>

definition b64_wellformed :: "string \<Rightarrow> bool" where
  "b64_wellformed s =
     (let body = takeWhile (\<lambda>c. c \<noteq> CHR ''='') s;
          pad = dropWhile (\<lambda>c. c \<noteq> CHR ''='') s
      in length s mod 4 = 0
         \<and> list_all (\<lambda>c. table_a2b_base64 c \<noteq> None) body
         \<and> (pad = [] \<or> pad = ''='' \<or> pad = ''==''))"

section \<open>What a cycle stores, as functions of the raw value\<close>

text \<open>
  The value each \<^verbatim>\<open>_process_*\<close> method writes for a raw value, read off the body of its
  \<^verbatim>\<open>try\<close> block: \<open>None\<close> where the method writes nothing. \<open>stored\<close> is the field after
  the call: the decoded value of the key, or the old content when the key is missing or
  nothing was written. The lemmas \<open>process_*_decode\<close> below prove that the methods
  compute exactly this.
\<close>

definition decode_battery :: "py_value \<Rightarrow> int option" where
  "decode_battery raw =
     (case py_int raw of Inl e \<Rightarrow> None | Inr n \<Rightarrow> Some (max 0 (min 100 n)))"

definition decode_water_tank :: "py_value \<Rightarrow> int option" where
  "decode_water_tank raw =
     (case isinstance_str raw of
        None \<Rightarrow> None
      | Some s \<Rightarrow>
         (case b64decode s of
            Inl e \<Rightarrow> None
          | Inr bs \<Rightarrow>
             if length bs > 4 then Some (min 100 ((uint (bs ! 4) * 100) div 255)) else None))"

definition decode_clean_speed :: "py_value \<Rightarrow> string option" where
  "decode_clean_speed raw =
     (case isinstance_int raw of
        None \<Rightarrow> None
      | Some i \<Rightarrow>
         if 0 \<le> i \<and> i < int (length CLEAN_SPEED_NAMES)
         then Some (CLEAN_SPEED_NAMES ! nat i) else None)"

definition decode_work_status :: "py_value \<Rightarrow> string option" where
  "decode_work_status raw =
     (case isinstance_int raw of None \<Rightarrow> None | Some i \<Rightarrow> map_of WORK_STATUS_MAP i)"

definition decode_play_pause :: "py_value \<Rightarrow> bool option" where
  "decode_play_pause raw = Some (py_bool raw)"

definition stored :: "raw_sample \<Rightarrow> string \<Rightarrow> (py_value \<Rightarrow> 'a option) \<Rightarrow> 'a option \<Rightarrow> 'a option" where
  "stored raw key decode old =
     (case Option.bind (map_of raw key) decode of None \<Rightarrow> old | Some v \<Rightarrow> Some v)"

text \<open>A field of \<^verbatim>\<open>parsed_data\<close> after a call; \<open>None\<close> when the call raised.\<close>

definition result_field :: "(parsed \<Rightarrow> 'a) \<Rightarrow> py_exception + coordinator \<Rightarrow> 'a option" where
  "result_field f r = (case r of Inl e \<Rightarrow> None | Inr self \<Rightarrow> Some (f (parsed_data self)))"

text \<open>The raw sample of the end-to-end scenario of the specification.\<close>

definition scenario_sample :: raw_sample where
  "scenario_sample =
     [(''163'', PyInt 85), (''158'', PyInt 2), (''153'', PyInt 5), (''152'', PyBool True),
      (''167'', PyStr (b64encode [0, 0, 0, 0, 210]))]"

section \<open>Basic facts\<close>

lemma monitored_keys_length: "length MONITORED_KEYS = 12"
  by (simp add: MONITORED_KEYS_def)

lemma raw_data_holding: "raw_data (holding raw) = raw"
  by (simp add: holding_def)

lemma raw_data_set_parsed [simp]: "raw_data (set_parsed f self) = raw_data self"
  by (simp add: set_parsed_def)

lemma parsed_data_set_parsed [simp]: "parsed_data (set_parsed f self) = f (parsed_data self)"
  by (simp add: set_parsed_def)

lemma set_parsed_more [simp]:
  "self_device_id (set_parsed f self) = self_device_id self"
  "self_update_count (set_parsed f self) = self_update_count self"
  "debug_mode (set_parsed f self) = debug_mode self"
  by (simp_all add: set_parsed_def)

lemma set_parsed_set_parsed: "set_parsed g (set_parsed f self) = set_parsed (\<lambda>p. g (f p)) self"
  by (simp add: set_parsed_def)

lemma set_parsed_same: "f (parsed_data self) = parsed_data self \<Longrightarrow> set_parsed f self = self"
  by (simp add: set_parsed_def)


lemma py_int_raises: "py_int raw = Inl e \<Longrightarrow> e = ValueError \<or> e = TypeError"
proof (cases raw)
  case (PyStr s)
  assume "py_int raw = Inl e"
  with PyStr have "int_of_str s = Inl e" by simp
  then show ?thesis
    unfolding int_of_str_def Let_def by (metis Inl_inject Inl_Inr_False)
qed auto

lemma process_battery_decode:
  "process_battery self =
     Inr (set_parsed (\<lambda>p. p\<lparr>battery := stored (raw_data self) ''163'' decode_battery (battery p)\<rparr>) self)"
proof (cases "map_of (raw_data self) ''163''")
  case None
  then show ?thesis
    by (simp add: process_battery_def stored_def set_parsed_same)
next
  case (Some raw)
  show ?thesis
  proof (cases "py_int raw")
    case (Inl e)
    with py_int_raises [OF Inl] Some show ?thesis
      by (auto simp add: process_battery_def stored_def decode_battery_def set_parsed_same)
  next
    case (Inr n)
    with Some show ?thesis
      by (simp add: process_battery_def stored_def decode_battery_def)
  qed
qed

lemma process_water_tank_decode:
  "process_water_tank self =
     Inr (set_parsed (\<lambda>p. p\<lparr>water_tank := stored (raw_data self) ''167'' decode_water_tank (water_tank p)\<rparr>) self)"
  by (simp add: process_water_tank_def stored_def decode_water_tank_def set_parsed_same Let_def
      split: option.splits sum.splits)

lemma process_clean_speed_decode:
  "process_clean_speed self =
     Inr (set_parsed (\<lambda>p. p\<lparr>clean_speed := stored (raw_data self) ''158'' decode_clean_speed (clean_speed p)\<rparr>) self)"
  by (simp add: process_clean_speed_def stored_def decode_clean_speed_def set_parsed_same
      split: option.splits)

lemma process_work_status_decode:
  "process_work_status self =
     Inr (set_parsed (\<lambda>p. p\<lparr>work_status := stored (raw_data self) ''153'' decode_work_status (work_status p)\<rparr>) self)"
  by (simp add: process_work_status_def stored_def decode_work_status_def set_parsed_same
      split: option.splits)

lemma process_play_pause_decode:
  "process_play_pause self =
     Inr (set_parsed (\<lambda>p. p\<lparr>play_pause := stored (raw_data self) ''152'' decode_play_pause (play_pause p)\<rparr>) self)"
  by (simp add: process_play_pause_def stored_def decode_play_pause_def set_parsed_same
      split: option.splits)

lemma check_monitored_eq:
  "check_monitored ks self =
     set_parsed (\<lambda>p. p\<lparr>monitored_keys_found :=
                        monitored_keys_found p @ filter (py_contains (raw_data self)) ks,
                      monitored_keys_missing :=
                        monitored_keys_missing p @ filter (\<lambda>k. \<not> py_contains (raw_data self) k) ks\<rparr>)
       self"
proof (induction ks arbitrary: self)
  case Nil
  show ?case by (simp add: set_parsed_same)
next
  case (Cons k ks)
  show ?case
    by (simp add: Cons.IH set_parsed_set_parsed)
qed

lemma stored_None: "stored raw key decode None = Option.bind (map_of raw key) decode"
  by (simp add: stored_def split: option.splits)

lemma process_data_eq:
  "process_data self now =
     Inr (self\<lparr>parsed_data :=
       \<lparr>device_id = self_device_id self,
        battery = Option.bind (map_of (raw_data self) ''163'') decode_battery,
        water_tank = Option.bind (map_of (raw_data self) ''167'') decode_water_tank,
        clean_speed = Option.bind (map_of (raw_data self) ''158'') decode_clean_speed,
        work_status = Option.bind (map_of (raw_data self) ''153'') decode_work_status,
        play_pause = Option.bind (map_of (raw_data self) ''152'') decode_play_pause,
        raw_keys = py_keys (raw_data self),
        monitored_keys_found = filter (py_contains (raw_data self)) MONITORED_KEYS,
        monitored_keys_missing = filter (\<lambda>k. \<not> py_contains (raw_data self) k) MONITORED_KEYS,
        last_update = now,
        update_count = self_update_count self\<rparr>\<rparr>)"
  by (simp add: process_data_def and_then_def check_monitored_eq process_battery_decode
      process_water_tank_decode process_clean_speed_decode process_work_status_decode
      process_play_pause_decode fresh_parsed_def stored_None set_parsed_def)

lemma scenario_encoding: "b64encode [0, 0, 0, 0, 210] = ''AAAAANI=''"
  by (simp add: b2a_def table_b2a_base64_def)

lemma scenario_decoding: "b64decode ''AAAAANI='' = Inr [0, 0, 0, 0, 210]"
  by (simp add: b64decode_def table_a2b_base64_def)

lemma work_status_lookup:
  "map_of WORK_STATUS_MAP i =
     (if 0 \<le> i \<and> i \<le> 8
      then Some ([''standby'', ''sleep'', ''fault'', ''charging'', ''fast_mapping'',
                  ''cleaning'', ''remote_ctrl'', ''go_home'', ''cruising''] ! nat i)
      else None)"
proof -
  have "i < 0 \<or> i = 0 \<or> i = 1 \<or> i = 2 \<or> i = 3 \<or> i = 4 \<or> i = 5 \<or> i = 6 \<or> i = 7
          \<or> i = 8 \<or> 8 < i"
    by arith
  then show ?thesis
    by (elim disjE) (simp_all add: WORK_STATUS_MAP_def)
qed

lemma py_contains_iff: "py_contains d k \<longleftrightarrow> k \<in> fst ` set d"
  by (simp add: py_contains_def map_of_eq_None_iff)

lemma distinct_monitored_keys: "distinct MONITORED_KEYS"
  by (simp add: MONITORED_KEYS_def)

lemma filter_partition:
  "distinct xs \<Longrightarrow>
   distinct (filter P xs @ filter (\<lambda>x. \<not> P x) xs)
   \<and> set (filter P xs @ filter (\<lambda>x. \<not> P x) xs) = set xs
   \<and> length (filter P xs) + length (filter (\<lambda>x. \<not> P x) xs) = length xs"
  by (auto simp add: sum_length_filter_compl)

lemma scenario_sample_eq:
  "scenario_sample =
     [(''163'', PyInt 85), (''158'', PyInt 2), (''153'', PyInt 5), (''152'', PyBool True),
      (''167'', PyStr ''AAAAANI='')]"
  by (simp only: scenario_sample_def scenario_encoding)

lemma scenario_battery: "Option.bind (map_of scenario_sample ''163'') decode_battery = Some 85"
  by (simp add: scenario_sample_eq decode_battery_def)

lemma scenario_water_tank:
  "Option.bind (map_of scenario_sample ''167'') decode_water_tank = Some 82"
  by (simp add: scenario_sample_eq decode_water_tank_def scenario_decoding)

lemma scenario_clean_speed:
  "Option.bind (map_of scenario_sample ''158'') decode_clean_speed = Some ''turbo''"
  by (simp add: scenario_sample_eq decode_clean_speed_def CLEAN_SPEED_NAMES_def)

lemma scenario_work_status:
  "Option.bind (map_of scenario_sample ''153'') decode_work_status = Some ''cleaning''"
  by (simp add: scenario_sample_eq decode_work_status_def work_status_lookup)

lemma scenario_play_pause:
  "Option.bind (map_of scenario_sample ''152'') decode_play_pause = Some True"
  by (simp add: scenario_sample_eq decode_play_pause_def)

lemma scenario_found:
  "filter (py_contains scenario_sample) MONITORED_KEYS =
     [''163'', ''167'', ''153'', ''152'', ''158'']"
  by (simp add: scenario_sample_eq MONITORED_KEYS_def py_contains_def)

lemma scenario_missing:
  "filter (\<lambda>k. \<not> py_contains scenario_sample k) MONITORED_KEYS =
     [''177'', ''178'', ''168'', ''154'', ''155'', ''160'', ''173'']"
  by (simp add: scenario_sample_eq MONITORED_KEYS_def py_contains_def)

lemma scenario_keys: "py_keys scenario_sample = [''163'', ''158'', ''153'', ''152'', ''167'']"
  by (simp add: scenario_sample_eq py_keys_def)

lemmas scenario_fields =
  scenario_battery scenario_water_tank scenario_clean_speed scenario_work_status
  scenario_play_pause scenario_found scenario_missing scenario_keys

lemma decode_battery_range: "decode_battery raw = Some b \<Longrightarrow> 0 \<le> b \<and> b \<le> 100"
  by (auto simp add: decode_battery_def split: sum.splits)

lemma decode_water_tank_range:
  assumes a: "decode_water_tank raw = Some w"
  shows "0 \<le> w \<and> w \<le> 100"
proof -
  from a obtain x :: byte where w: "w = min 100 ((uint x * 100) div 255)"
    by (auto simp add: decode_water_tank_def split: option.splits sum.splits if_splits)
  have "0 \<le> uint x" by simp
  then have "0 \<le> (uint x * 100) div 255" by (simp add: pos_imp_zdiv_nonneg_iff)
  with w show ?thesis by simp
qed

lemma bind_Some_elim:
  assumes "Option.bind m f = Some y"
  obtains x where "f x = Some y"
  using assms by (cases m) auto

section \<open>Decoding an encoding gives the bytes back\<close>

lemma mask3: "(3::byte) = mask 2" by (simp add: mask_eq_exp_minus_1)
lemma mask15: "(15::byte) = mask 4" by (simp add: mask_eq_exp_minus_1)
lemma mask63: "(63::byte) = mask 6" by (simp add: mask_eq_exp_minus_1)

lemma byte_eqI:
  fixes x y :: byte
  assumes "bit x 0 = bit y 0" "bit x 1 = bit y 1" "bit x 2 = bit y 2" "bit x 3 = bit y 3"
    "bit x 4 = bit y 4" "bit x 5 = bit y 5" "bit x 6 = bit y 6" "bit x 7 = bit y 7"
  shows "x = y"
proof (rule bit_word_eqI)
  fix n assume "n < LENGTH(8)"
  then have "n \<in> {0, 1, 2, 3, 4, 5, 6, 7}"
    by auto
  with assms show "bit x n = bit y n"
    by auto
qed

lemma first_byte:
  "push_bit 2 (drop_bit 2 a) OR drop_bit 4 (push_bit 4 (a AND 3) OR drop_bit 4 b) = (a::byte)"
  unfolding mask3 by (rule byte_eqI) (simp_all add: bit_simps)

lemma first_byte_tail:
  "push_bit 2 (drop_bit 2 a) OR drop_bit 4 (push_bit 4 (a AND 3)) = (a::byte)"
  unfolding mask3 by (rule byte_eqI) (simp_all add: bit_simps)

lemma second_byte:
  "push_bit 4 ((push_bit 4 (a AND 3) OR drop_bit 4 b) AND 15)
     OR drop_bit 2 (push_bit 2 (b AND 15) OR drop_bit 6 c) = (b::byte)"
  unfolding mask3 mask15 by (rule byte_eqI) (simp_all add: bit_simps)

lemma second_byte_tail:
  "push_bit 4 ((push_bit 4 (a AND 3) OR drop_bit 4 b) AND 15)
     OR drop_bit 2 (push_bit 2 (b AND 15)) = (b::byte)"
  unfolding mask3 mask15 by (rule byte_eqI) (simp_all add: bit_simps)

lemma third_byte:
  "push_bit 6 ((push_bit 2 (b AND 15) OR drop_bit 6 c) AND 3) OR (c AND 63) = (c::byte)"
  unfolding mask3 mask15 mask63 by (rule byte_eqI) (simp_all add: bit_simps)

lemma sextetI: "v AND 63 = v \<Longrightarrow> sextet (v::byte)"
proof -
  assume "v AND 63 = v"
  then have "v = take_bit 6 v"
    by (simp add: mask63 take_bit_eq_mask)
  then have "unat v = take_bit 6 (unat v)"
    by (metis unsigned_take_bit_eq)
  then have "unat v < 2 ^ 6"
    by (metis take_bit_nat_less_exp)
  then show ?thesis by (simp add: sextet_def)
qed

lemma no_high_bit: "8 \<le> n \<Longrightarrow> \<not> bit (a::byte) n"
  by (auto dest: bit_imp_le_length)

lemma sextet_1: "sextet (drop_bit 2 (a::byte))"
  by (rule sextetI, unfold mask63, rule byte_eqI) (simp_all add: bit_simps no_high_bit)

lemma sextet_2: "sextet (push_bit 4 (a AND 3) OR drop_bit 4 (b::byte))"
  by (rule sextetI, unfold mask3 mask63, rule byte_eqI) (simp_all add: bit_simps no_high_bit)

lemma sextet_3: "sextet (push_bit 2 (b AND 15) OR drop_bit 6 (c::byte))"
  by (rule sextetI, unfold mask15 mask63, rule byte_eqI) (simp_all add: bit_simps no_high_bit)

lemma sextet_4: "sextet ((c::byte) AND 63)"
  by (rule sextetI, unfold mask63, rule byte_eqI) (simp_all add: bit_simps)

lemma sextet_2_tail: "sextet (push_bit 4 ((a::byte) AND 3))"
  by (rule sextetI, unfold mask3 mask63, rule byte_eqI) (simp_all add: bit_simps)

lemma sextet_3_tail: "sextet (push_bit 2 ((b::byte) AND 15))"
  by (rule sextetI, unfold mask15 mask63, rule byte_eqI) (simp_all add: bit_simps)

lemmas sextets = sextet_1 sextet_2 sextet_3 sextet_4 sextet_2_tail sextet_3_tail

lemma table_chars:
  "list_all (\<lambda>c. c \<noteq> CHR ''='' \<and> (of_char c :: nat) < 128) table_b2a_base64"
  by (simp add: table_b2a_base64_def)

lemma table_values:
  "map table_a2b_base64 table_b2a_base64 = map (\<lambda>n. Some (of_nat n)) [0..<64]"
  by (simp add: table_b2a_base64_def table_a2b_base64_def upt_rec)

lemma table_length: "length table_b2a_base64 = 64"
  by (simp add: table_b2a_base64_def)

lemma table_roundtrip:
  assumes "sextet v"
  shows "table_a2b_base64 (b2a v) = Some v" and "b2a v \<noteq> CHR ''=''"
    and "(of_char (b2a v) :: nat) < 128"
proof -
  from assms have n: "unat v < 64"
    by (simp add: sextet_def)
  then have "table_a2b_base64 (table_b2a_base64 ! unat v) =
             map table_a2b_base64 table_b2a_base64 ! unat v"
    by (simp add: table_length)
  also have "\<dots> = Some (of_nat (unat v))"
    using n by (simp only: table_values) simp
  finally show "table_a2b_base64 (b2a v) = Some v"
    by (simp add: b2a_def)
  from n have "table_b2a_base64 ! unat v \<in> set table_b2a_base64"
    by (simp add: table_length)
  with table_chars show "b2a v \<noteq> CHR ''=''" and "(of_char (b2a v) :: nat) < 128"
    unfolding list_all_iff b2a_def by blast+
qed

lemma a2b_base64_group:
  assumes "sextet v1" "sextet v2" "sextet v3" "sextet v4"
  shows "a2b_base64 0 leftchar pads bin (b2a v1 # b2a v2 # b2a v3 # b2a v4 # cs) =
         a2b_base64 0 0 0
           (bin @ [push_bit 2 v1 OR drop_bit 4 v2, push_bit 4 (v2 AND 15) OR drop_bit 2 v3,
                   push_bit 6 (v3 AND 3) OR v4]) cs"
  using assms by (simp add: table_roundtrip)

lemma a2b_base64_one_byte:
  assumes "sextet v1" "sextet v2"
  shows "a2b_base64 0 leftchar pads bin [b2a v1, b2a v2, CHR ''='', CHR ''=''] =
         Inr (bin @ [push_bit 2 v1 OR drop_bit 4 v2])"
  using assms by (simp add: table_roundtrip)

lemma a2b_base64_two_bytes:
  assumes "sextet v1" "sextet v2" "sextet v3"
  shows "a2b_base64 0 leftchar pads bin [b2a v1, b2a v2, b2a v3, CHR ''=''] =
         Inr (bin @ [push_bit 2 v1 OR drop_bit 4 v2, push_bit 4 (v2 AND 15) OR drop_bit 2 v3])"
  using assms by (simp add: table_roundtrip)

lemma a2b_base64_encode:
  "a2b_base64 0 leftchar pads bin (b64encode bs) = Inr (bin @ bs)"
proof (induction bs arbitrary: leftchar pads bin rule: b64encode.induct)
  case 1
  show ?case by simp
next
  case (2 a)
  show ?case
    by (simp only: b64encode.simps a2b_base64_one_byte [OF sextet_1 sextet_2_tail]
        first_byte_tail)
next
  case (3 a b)
  show ?case
    by (simp only: b64encode.simps a2b_base64_two_bytes [OF sextet_1 sextet_2 sextet_3_tail]
        first_byte second_byte_tail)
next
  case (4 a b c r)
  have "a2b_base64 0 leftchar pads bin (b64encode (a # b # c # r)) =
        a2b_base64 0 0 0 (bin @ [a, b, c]) (b64encode r)"
    by (simp only: b64encode.simps append_Cons append_Nil
        a2b_base64_group [OF sextet_1 sextet_2 sextet_3 sextet_4]
        first_byte second_byte third_byte)
  also have "\<dots> = Inr ((bin @ [a, b, c]) @ r)"
    by (rule "4.IH")
  finally show ?case by simp
qed

lemma b2a_ascii: "sextet v \<Longrightarrow> \<not> 128 \<le> (of_char (b2a v) :: nat)"
  by (simp add: table_roundtrip not_le)

lemma pad_ascii: "\<not> 128 \<le> (of_char CHR ''='' :: nat)"
  by simp

lemma b64encode_ascii: "\<not> list_ex (\<lambda>c. 128 \<le> (of_char c :: nat)) (b64encode bs)"
proof (induction bs rule: b64encode.induct)
  case 1
  show ?case by simp
next
  case (2 a)
  show ?case
    by (simp only: b64encode.simps list_ex_Nil_iff list_ex_Cons_iff b2a_ascii [OF sextet_1]
        b2a_ascii [OF sextet_2_tail] pad_ascii simp_thms)
next
  case (3 a b)
  show ?case
    by (simp only: b64encode.simps list_ex_Nil_iff list_ex_Cons_iff b2a_ascii [OF sextet_1]
        b2a_ascii [OF sextet_2] b2a_ascii [OF sextet_3_tail] pad_ascii simp_thms)
next
  case (4 a b c r)
  then show ?case
    by (simp only: b64encode.simps list_ex_Nil_iff list_ex_Cons_iff append_Cons append_Nil b2a_ascii [OF sextet_1]
        b2a_ascii [OF sextet_2] b2a_ascii [OF sextet_3] b2a_ascii [OF sextet_4] simp_thms)
qed

lemma b64decode_b64encode: "b64decode (b64encode bs) = Inr bs"
  by (simp add: b64decode_def b64encode_ascii a2b_base64_encode)


lemma wellformed_one_byte:
  assumes "sextet v1" "sextet v2"
  shows "b64_wellformed [b2a v1, b2a v2, CHR ''='', CHR ''='']"
  using assms by (simp add: b64_wellformed_def table_roundtrip)

lemma wellformed_two_bytes:
  assumes "sextet v1" "sextet v2" "sextet v3"
  shows "b64_wellformed [b2a v1, b2a v2, b2a v3, CHR ''='']"
  using assms by (simp add: b64_wellformed_def table_roundtrip)

lemma wellformed_group:
  assumes "sextet v1" "sextet v2" "sextet v3" "sextet v4" "b64_wellformed cs"
  shows "b64_wellformed (b2a v1 # b2a v2 # b2a v3 # b2a v4 # cs)"
proof -
  have "Suc (Suc (Suc (Suc (length cs)))) mod 4 = length cs mod 4"
    by presburger
  with assms show ?thesis
    by (simp add: b64_wellformed_def table_roundtrip Let_def)
qed

lemma b64encode_wellformed: "b64_wellformed (b64encode bs)"
proof (induction bs rule: b64encode.induct)
  case 1
  show ?case by (simp add: b64_wellformed_def)
next
  case (2 a)
  show ?case
    by (simp only: b64encode.simps wellformed_one_byte [OF sextet_1 sextet_2_tail])
next
  case (3 a b)
  show ?case
    by (simp only: b64encode.simps wellformed_two_bytes [OF sextet_1 sextet_2 sextet_3_tail])
next
  case (4 a b c r)
  then show ?case
    by (simp only: b64encode.simps append_Cons append_Nil
        wellformed_group [OF sextet_1 sextet_2 sextet_3 sextet_4])
qed

section \<open>The field a method and a cycle leave\<close>

lemma cycle_battery:
  "\<exists>self'. process_data self now = Inr self'
     \<and> battery (parsed_data self') = Option.bind (map_of (raw_data self) ''163'') decode_battery"
  by (simp add: process_data_eq)

lemma cycle_water_tank:
  "\<exists>self'. process_data self now = Inr self'
     \<and> water_tank (parsed_data self') =
         Option.bind (map_of (raw_data self) ''167'') decode_water_tank"
  by (simp add: process_data_eq)

lemma cycle_clean_speed:
  "\<exists>self'. process_data self now = Inr self'
     \<and> clean_speed (parsed_data self') =
         Option.bind (map_of (raw_data self) ''158'') decode_clean_speed"
  by (simp add: process_data_eq)

lemma cycle_work_status:
  "\<exists>self'. process_data self now = Inr self'
     \<and> work_status (parsed_data self') =
         Option.bind (map_of (raw_data self) ''153'') decode_work_status"
  by (simp add: process_data_eq)

section \<open>Clean speed (key 158)\<close>

text \<open>
  C10. \<^verbatim>\<open>_process_clean_speed\<close> takes a boolean raw value as an index, since
  \<^verbatim>\<open>isinstance(True, int)\<close> holds: after the method, and after a whole cycle, the field
  \<^verbatim>\<open>clean_speed\<close> holds the name at index 1, "standard", for \<^verbatim>\<open>True\<close> and the name at
  index 0, "quiet", for \<^verbatim>\<open>False\<close>; the field is not left absent.
\<close>

theorem clean_speed_of_bool:
  assumes lookup: "map_of (raw_data self) ''158'' = Some (PyBool b)"
  shows "process_clean_speed self =
           Inr (set_parsed
                  (\<lambda>p. p\<lparr>clean_speed := Some (if b then ''standard'' else ''quiet'')\<rparr>) self)
       \<and> (\<exists>self'. process_clean_speed self = Inr self'
             \<and> clean_speed (parsed_data self') = Some (if b then ''standard'' else ''quiet''))
       \<and> (\<exists>self'. process_data self now = Inr self'
             \<and> clean_speed (parsed_data self') = Some (if b then ''standard'' else ''quiet''))"
proof -
  have wrote: "process_clean_speed self =
      Inr (set_parsed
             (\<lambda>p. p\<lparr>clean_speed := Some (if b then ''standard'' else ''quiet'')\<rparr>) self)"
    using lookup by (simp add: process_clean_speed_def CLEAN_SPEED_NAMES_def)
  have decoded: "Option.bind (map_of (raw_data self) ''158'') decode_clean_speed =
      Some (if b then ''standard'' else ''quiet'')"
    using lookup by (simp add: decode_clean_speed_def CLEAN_SPEED_NAMES_def)
  from wrote have "\<exists>self'. process_clean_speed self = Inr self'
      \<and> clean_speed (parsed_data self') = Some (if b then ''standard'' else ''quiet'')"
    unfolding set_parsed_def by simp
  moreover from cycle_clean_speed [of self now] decoded
  have "\<exists>self'. process_data self now = Inr self'
      \<and> clean_speed (parsed_data self') = Some (if b then ''standard'' else ''quiet'')"
    by simp
  ultimately show ?thesis
    using wrote by blast
qed

theorem clean_speed_of_bool_witness:
  "result_field clean_speed (process_clean_speed (holding [(''158'', PyBool True)])) =
     Some (Some ''standard'')
   \<and> result_field clean_speed (process_clean_speed (holding [(''158'', PyBool False)])) =
     Some (Some ''quiet'')
   \<and> result_field clean_speed (process_data (holding [(''158'', PyBool True)]) 0) =
     Some (Some ''standard'')
   \<and> result_field clean_speed (process_data (holding [(''158'', PyBool False)]) 0) =
     Some (Some ''quiet'')"
proof -
  have t: "map_of (raw_data (holding [(''158'', PyBool True)])) ''158'' = Some (PyBool True)"
    and f: "map_of (raw_data (holding [(''158'', PyBool False)])) ''158'' = Some (PyBool False)"
    by (simp_all add: raw_data_holding)
  from clean_speed_of_bool [OF t, of 0] clean_speed_of_bool [OF f, of 0]
  show ?thesis
    by (auto simp add: result_field_def)
qed

text \<open>
  C5, as the code has it. With the raw value of key 158 an integer \<open>i\<close>,
  \<^verbatim>\<open>_process_clean_speed\<close> stores the \<open>i\<close>-th name of quiet, standard, turbo, max in the
  field \<^verbatim>\<open>clean_speed\<close> when \<open>0 \<le> i < 4\<close>, and writes nothing for any other \<open>i\<close>, so that
  the field is absent after the cycle. A string or \<^verbatim>\<open>None\<close> leaves the field absent. A
  boolean is not rejected as a non-integer: it counts as the integer 1 or 0 and the field
  holds "standard" or "quiet".
\<close>

theorem clean_speed_decoding:
  assumes lookup: "map_of (raw_data self) ''158'' = Some raw"
  shows "(\<forall>i. raw = PyInt i \<longrightarrow>
      process_clean_speed self =
        (if 0 \<le> i \<and> i < 4
         then Inr (set_parsed (\<lambda>p. p\<lparr>clean_speed :=
                Some ([''quiet'', ''standard'', ''turbo'', ''max''] ! nat i)\<rparr>) self)
         else Inr self)
      \<and> (0 \<le> i \<and> i < 4 \<longrightarrow>
           (\<exists>self'. process_clean_speed self = Inr self'
              \<and> clean_speed (parsed_data self') =
                  Some ([''quiet'', ''standard'', ''turbo'', ''max''] ! nat i))
         \<and> (\<exists>self'. process_data self now = Inr self'
              \<and> clean_speed (parsed_data self') =
                  Some ([''quiet'', ''standard'', ''turbo'', ''max''] ! nat i)))
      \<and> (i < 0 \<or> 4 \<le> i \<longrightarrow>
           (\<exists>self'. process_data self now = Inr self'
              \<and> clean_speed (parsed_data self') = None)))
   \<and> (\<forall>b. raw = PyBool b \<longrightarrow>
      process_clean_speed self =
        Inr (set_parsed
               (\<lambda>p. p\<lparr>clean_speed := Some (if b then ''standard'' else ''quiet'')\<rparr>) self)
      \<and> (\<exists>self'. process_clean_speed self = Inr self'
            \<and> clean_speed (parsed_data self') = Some (if b then ''standard'' else ''quiet''))
      \<and> (\<exists>self'. process_data self now = Inr self'
            \<and> clean_speed (parsed_data self') = Some (if b then ''standard'' else ''quiet'')))
   \<and> ((\<exists>s. raw = PyStr s) \<or> raw = PyNone \<longrightarrow>
      process_clean_speed self = Inr self
      \<and> (\<exists>self'. process_data self now = Inr self'
            \<and> clean_speed (parsed_data self') = None))"
proof -
  have stores: "\<exists>self'. r = Inr self' \<and> clean_speed (parsed_data self') = Some v"
    if "r = Inr (set_parsed (\<lambda>p. p\<lparr>clean_speed := Some v\<rparr>) self)"
    for r :: "py_exception + coordinator" and v
    using that unfolding set_parsed_def by simp
  have whole: "\<exists>self'. process_data self now = Inr self'
      \<and> clean_speed (parsed_data self') = decode_clean_speed raw"
    using cycle_clean_speed [of self now] lookup by simp
  have int_case:
    "process_clean_speed self =
        (if 0 \<le> i \<and> i < 4
         then Inr (set_parsed (\<lambda>p. p\<lparr>clean_speed := Some ([''quiet'', ''standard'', ''turbo'', ''max''] ! nat i)\<rparr>) self)
         else Inr self)
      \<and> (0 \<le> i \<and> i < 4 \<longrightarrow>
           (\<exists>self'. process_clean_speed self = Inr self'
              \<and> clean_speed (parsed_data self') = Some ([''quiet'', ''standard'', ''turbo'', ''max''] ! nat i))
         \<and> (\<exists>self'. process_data self now = Inr self'
              \<and> clean_speed (parsed_data self') = Some ([''quiet'', ''standard'', ''turbo'', ''max''] ! nat i)))
      \<and> (i < 0 \<or> 4 \<le> i \<longrightarrow>
           (\<exists>self'. process_data self now = Inr self' \<and> clean_speed (parsed_data self') = None))"
    if is_int: "raw = PyInt i" for i
  proof -
    have wrote: "process_clean_speed self =
        (if 0 \<le> i \<and> i < 4
         then Inr (set_parsed (\<lambda>p. p\<lparr>clean_speed := Some ([''quiet'', ''standard'', ''turbo'', ''max''] ! nat i)\<rparr>) self)
         else Inr self)"
      using lookup is_int by (simp add: process_clean_speed_def CLEAN_SPEED_NAMES_def)
    have decoded: "decode_clean_speed raw = (if 0 \<le> i \<and> i < 4 then Some ([''quiet'', ''standard'', ''turbo'', ''max''] ! nat i) else None)"
      using is_int by (simp add: decode_clean_speed_def CLEAN_SPEED_NAMES_def)
    show ?thesis
    proof (cases "0 \<le> i \<and> i < 4")
      case True
      with wrote have "process_clean_speed self =
          Inr (set_parsed (\<lambda>p. p\<lparr>clean_speed := Some ([''quiet'', ''standard'', ''turbo'', ''max''] ! nat i)\<rparr>) self)"
        by simp
      from stores [OF this] whole decoded True wrote show ?thesis
        by simp
    next
      case False
      with whole decoded wrote show ?thesis
        by auto
    qed
  qed
  have bool_case:
    "process_clean_speed self =
        Inr (set_parsed (\<lambda>p. p\<lparr>clean_speed := Some (if b then ''standard'' else ''quiet'')\<rparr>) self)
      \<and> (\<exists>self'. process_clean_speed self = Inr self'
            \<and> clean_speed (parsed_data self') = Some (if b then ''standard'' else ''quiet''))
      \<and> (\<exists>self'. process_data self now = Inr self'
            \<and> clean_speed (parsed_data self') = Some (if b then ''standard'' else ''quiet''))"
    if is_bool: "raw = PyBool b" for b
  proof -
    have wrote: "process_clean_speed self =
        Inr (set_parsed (\<lambda>p. p\<lparr>clean_speed := Some (if b then ''standard'' else ''quiet'')\<rparr>) self)"
      using lookup is_bool by (simp add: process_clean_speed_def CLEAN_SPEED_NAMES_def)
    have decoded: "decode_clean_speed raw = Some (if b then ''standard'' else ''quiet'')"
      using is_bool by (simp add: decode_clean_speed_def CLEAN_SPEED_NAMES_def)
    from stores [OF wrote] whole decoded wrote show ?thesis
      by simp
  qed
  have other_case:
    "process_clean_speed self = Inr self
      \<and> (\<exists>self'. process_data self now = Inr self' \<and> clean_speed (parsed_data self') = None)"
    if other: "(\<exists>s. raw = PyStr s) \<or> raw = PyNone"
  proof -
    from other have decoded: "decode_clean_speed raw = None"
      by (auto simp add: decode_clean_speed_def)
    from other lookup have "process_clean_speed self = Inr self"
      by (auto simp add: process_clean_speed_def)
    with whole decoded show ?thesis
      by simp
  qed
  from int_case bool_case other_case show ?thesis
    by blast
qed

theorem clean_speed_decoding_witness:
  "result_field clean_speed (process_clean_speed (holding [(''158'', PyInt 2)])) =
     Some (Some ''turbo'')
   \<and> result_field clean_speed (process_data (holding [(''158'', PyInt 2)]) 0) =
     Some (Some ''turbo'')
   \<and> result_field clean_speed (process_data (holding [(''158'', PyInt 4)]) 0) = Some None
   \<and> result_field clean_speed (process_data (holding [(''158'', PyInt (- 1))]) 0) = Some None
   \<and> result_field clean_speed (process_data (holding [(''158'', PyStr ''2'')]) 0) = Some None
   \<and> result_field clean_speed (process_data (holding [(''158'', PyBool True)]) 0) =
     Some (Some ''standard'')"
proof -
  have l: "map_of (raw_data (holding [(''158'', v)])) ''158'' = Some v" for v
    by (simp add: raw_data_holding)
  from clean_speed_decoding [OF l [of "PyInt 2"], of 0]
       clean_speed_decoding [OF l [of "PyInt 4"], of 0]
       clean_speed_decoding [OF l [of "PyInt (- 1)"], of 0]
       clean_speed_decoding [OF l [of "PyStr ''2''"], of 0]
       clean_speed_decoding [OF l [of "PyBool True"], of 0]
  show ?thesis
    by (auto simp add: result_field_def)
qed

text \<open>
  The claim as the specification states it (any non-integer input leaves the field
  absent) fails at the boolean \<^verbatim>\<open>True\<close>: after the method, and after a whole cycle, the
  field holds "standard" and is not absent.
\<close>

theorem clean_speed_nonint_counterexample:
  "process_clean_speed (holding [(''158'', PyBool True)]) =
     Inr (set_parsed (\<lambda>p. p\<lparr>clean_speed := Some ''standard''\<rparr>)
            (holding [(''158'', PyBool True)]))
   \<and> process_clean_speed (holding [(''158'', PyBool True)]) \<noteq>
       Inr (holding [(''158'', PyBool True)])
   \<and> result_field clean_speed (process_clean_speed (holding [(''158'', PyBool True)])) =
       Some (Some ''standard'')
   \<and> result_field clean_speed (process_data (holding [(''158'', PyBool True)]) 0) =
       Some (Some ''standard'')
   \<and> result_field clean_speed (process_data (holding [(''158'', PyBool True)]) 0) \<noteq> Some None"
  by (simp add: process_clean_speed_def CLEAN_SPEED_NAMES_def holding_def
      init_coordinator_def set_parsed_def empty_parsed_def result_field_def process_data_eq
      decode_clean_speed_def)

section \<open>Work status (key 153)\<close>

text \<open>
  C6, as the code has it. With the raw value of key 153 an integer \<open>i\<close>,
  \<^verbatim>\<open>_process_work_status\<close> stores in the field \<^verbatim>\<open>work_status\<close> the name
  \<^verbatim>\<open>WORK_STATUS_MAP\<close> gives \<open>i\<close> (0 standby, 1 sleep, 2 fault, 3 charging, 4 fast_mapping,
  5 cleaning, 6 remote_ctrl, 7 go_home, 8 cruising) and writes nothing for an integer
  outside 0..8, such as 99, so that the field is absent after the cycle. A string or
  \<^verbatim>\<open>None\<close> leaves the field absent. A boolean is not rejected as a non-integer: it counts
  as the key 1 or 0 and the field holds "sleep" or "standby".
\<close>

theorem work_status_decoding:
  assumes lookup: "map_of (raw_data self) ''153'' = Some raw"
  shows "(\<forall>i. raw = PyInt i \<longrightarrow>
      process_work_status self =
        (if 0 \<le> i \<and> i \<le> 8
         then Inr (set_parsed (\<lambda>p. p\<lparr>work_status :=
                Some ([''standby'', ''sleep'', ''fault'', ''charging'', ''fast_mapping'',
                       ''cleaning'', ''remote_ctrl'', ''go_home'', ''cruising''] ! nat i)\<rparr>) self)
         else Inr self)
      \<and> (0 \<le> i \<and> i \<le> 8 \<longrightarrow>
           (\<exists>self'. process_work_status self = Inr self'
              \<and> work_status (parsed_data self') =
                  Some ([''standby'', ''sleep'', ''fault'', ''charging'', ''fast_mapping'',
                         ''cleaning'', ''remote_ctrl'', ''go_home'', ''cruising''] ! nat i))
         \<and> (\<exists>self'. process_data self now = Inr self'
              \<and> work_status (parsed_data self') =
                  Some ([''standby'', ''sleep'', ''fault'', ''charging'', ''fast_mapping'',
                         ''cleaning'', ''remote_ctrl'', ''go_home'', ''cruising''] ! nat i)))
      \<and> (i < 0 \<or> 8 < i \<longrightarrow>
           (\<exists>self'. process_data self now = Inr self'
              \<and> work_status (parsed_data self') = None)))
   \<and> (\<forall>b. raw = PyBool b \<longrightarrow>
      process_work_status self =
        Inr (set_parsed
               (\<lambda>p. p\<lparr>work_status := Some (if b then ''sleep'' else ''standby'')\<rparr>) self)
      \<and> (\<exists>self'. process_work_status self = Inr self'
            \<and> work_status (parsed_data self') = Some (if b then ''sleep'' else ''standby''))
      \<and> (\<exists>self'. process_data self now = Inr self'
            \<and> work_status (parsed_data self') = Some (if b then ''sleep'' else ''standby'')))
   \<and> ((\<exists>s. raw = PyStr s) \<or> raw = PyNone \<longrightarrow>
      process_work_status self = Inr self
      \<and> (\<exists>self'. process_data self now = Inr self'
            \<and> work_status (parsed_data self') = None))"
proof -
  have stores: "\<exists>self'. r = Inr self' \<and> work_status (parsed_data self') = Some v"
    if "r = Inr (set_parsed (\<lambda>p. p\<lparr>work_status := Some v\<rparr>) self)"
    for r :: "py_exception + coordinator" and v
    using that unfolding set_parsed_def by simp
  have whole: "\<exists>self'. process_data self now = Inr self'
      \<and> work_status (parsed_data self') = decode_work_status raw"
    using cycle_work_status [of self now] lookup by simp
  have int_case:
    "process_work_status self =
        (if 0 \<le> i \<and> i \<le> 8
         then Inr (set_parsed (\<lambda>p. p\<lparr>work_status := Some ([''standby'', ''sleep'', ''fault'', ''charging'', ''fast_mapping'',
               ''cleaning'', ''remote_ctrl'', ''go_home'', ''cruising''] ! nat i)\<rparr>) self)
         else Inr self)
      \<and> (0 \<le> i \<and> i \<le> 8 \<longrightarrow>
           (\<exists>self'. process_work_status self = Inr self'
              \<and> work_status (parsed_data self') = Some ([''standby'', ''sleep'', ''fault'', ''charging'', ''fast_mapping'',
               ''cleaning'', ''remote_ctrl'', ''go_home'', ''cruising''] ! nat i))
         \<and> (\<exists>self'. process_data self now = Inr self'
              \<and> work_status (parsed_data self') = Some ([''standby'', ''sleep'', ''fault'', ''charging'', ''fast_mapping'',
               ''cleaning'', ''remote_ctrl'', ''go_home'', ''cruising''] ! nat i)))
      \<and> (i < 0 \<or> 8 < i \<longrightarrow>
           (\<exists>self'. process_data self now = Inr self' \<and> work_status (parsed_data self') = None))"
    if is_int: "raw = PyInt i" for i
  proof -
    have wrote: "process_work_status self =
        (if 0 \<le> i \<and> i \<le> 8
         then Inr (set_parsed (\<lambda>p. p\<lparr>work_status := Some ([''standby'', ''sleep'', ''fault'', ''charging'', ''fast_mapping'',
               ''cleaning'', ''remote_ctrl'', ''go_home'', ''cruising''] ! nat i)\<rparr>) self)
         else Inr self)"
      using lookup is_int by (simp add: process_work_status_def work_status_lookup)
    have decoded: "decode_work_status raw = (if 0 \<le> i \<and> i \<le> 8 then Some ([''standby'', ''sleep'', ''fault'', ''charging'', ''fast_mapping'',
               ''cleaning'', ''remote_ctrl'', ''go_home'', ''cruising''] ! nat i) else None)"
      using is_int by (simp add: decode_work_status_def work_status_lookup)
    show ?thesis
    proof (cases "0 \<le> i \<and> i \<le> 8")
      case True
      with wrote have "process_work_status self =
          Inr (set_parsed (\<lambda>p. p\<lparr>work_status := Some ([''standby'', ''sleep'', ''fault'', ''charging'', ''fast_mapping'',
               ''cleaning'', ''remote_ctrl'', ''go_home'', ''cruising''] ! nat i)\<rparr>) self)"
        by simp
      from stores [OF this] whole decoded True wrote show ?thesis
        by simp
    next
      case False
      with whole decoded wrote show ?thesis
        by auto
    qed
  qed
  have bool_case:
    "process_work_status self =
        Inr (set_parsed (\<lambda>p. p\<lparr>work_status := Some (if b then ''sleep'' else ''standby'')\<rparr>) self)
      \<and> (\<exists>self'. process_work_status self = Inr self'
            \<and> work_status (parsed_data self') = Some (if b then ''sleep'' else ''standby''))
      \<and> (\<exists>self'. process_data self now = Inr self'
            \<and> work_status (parsed_data self') = Some (if b then ''sleep'' else ''standby''))"
    if is_bool: "raw = PyBool b" for b
  proof -
    have wrote: "process_work_status self =
        Inr (set_parsed (\<lambda>p. p\<lparr>work_status := Some (if b then ''sleep'' else ''standby'')\<rparr>) self)"
      using lookup is_bool by (simp add: process_work_status_def work_status_lookup)
    have decoded: "decode_work_status raw = Some (if b then ''sleep'' else ''standby'')"
      using is_bool by (simp add: decode_work_status_def work_status_lookup)
    from stores [OF wrote] whole decoded wrote show ?thesis
      by simp
  qed
  have other_case:
    "process_work_status self = Inr self
      \<and> (\<exists>self'. process_data self now = Inr self' \<and> work_status (parsed_data self') = None)"
    if other: "(\<exists>s. raw = PyStr s) \<or> raw = PyNone"
  proof -
    from other have decoded: "decode_work_status raw = None"
      by (auto simp add: decode_work_status_def)
    from other lookup have "process_work_status self = Inr self"
      by (auto simp add: process_work_status_def)
    with whole decoded show ?thesis
      by simp
  qed
  from int_case bool_case other_case show ?thesis
    by blast
qed

theorem work_status_decoding_witness:
  "result_field work_status (process_work_status (holding [(''153'', PyInt 5)])) =
     Some (Some ''cleaning'')
   \<and> result_field work_status (process_data (holding [(''153'', PyInt 5)]) 0) =
     Some (Some ''cleaning'')
   \<and> result_field work_status (process_data (holding [(''153'', PyInt 99)]) 0) = Some None
   \<and> result_field work_status (process_data (holding [(''153'', PyStr ''5'')]) 0) = Some None
   \<and> result_field work_status (process_data (holding [(''153'', PyBool False)]) 0) =
     Some (Some ''standby'')"
proof -
  have l: "map_of (raw_data (holding [(''153'', v)])) ''153'' = Some v" for v
    by (simp add: raw_data_holding)
  from work_status_decoding [OF l [of "PyInt 5"], of 0]
       work_status_decoding [OF l [of "PyInt 99"], of 0]
       work_status_decoding [OF l [of "PyStr ''5''"], of 0]
       work_status_decoding [OF l [of "PyBool False"], of 0]
  show ?thesis
    by (auto simp add: result_field_def)
qed

text \<open>
  The claim as the specification states it (any non-integer input leaves the field
  absent) fails at the boolean \<^verbatim>\<open>True\<close>: after the method, and after a whole cycle, the
  field holds "sleep" and is not absent.
\<close>

theorem work_status_nonint_counterexample:
  "process_work_status (holding [(''153'', PyBool True)]) =
     Inr (set_parsed (\<lambda>p. p\<lparr>work_status := Some ''sleep''\<rparr>)
            (holding [(''153'', PyBool True)]))
   \<and> process_work_status (holding [(''153'', PyBool True)]) \<noteq>
       Inr (holding [(''153'', PyBool True)])
   \<and> result_field work_status (process_work_status (holding [(''153'', PyBool True)])) =
       Some (Some ''sleep'')
   \<and> result_field work_status (process_data (holding [(''153'', PyBool True)]) 0) =
       Some (Some ''sleep'')
   \<and> result_field work_status (process_data (holding [(''153'', PyBool True)]) 0) \<noteq> Some None"
  by (simp add: process_work_status_def WORK_STATUS_MAP_def holding_def
      init_coordinator_def set_parsed_def empty_parsed_def result_field_def process_data_eq
      decode_work_status_def)

section \<open>Battery (key 163)\<close>

text \<open>
  C4. With a raw value under key 163, \<^verbatim>\<open>_process_battery\<close> stores in the field
  \<^verbatim>\<open>battery\<close> the value clamped to 0..100 when the raw value is an integer (below 0 gives
  0, above 100 gives 100), and more generally whenever \<^verbatim>\<open>int()\<close> converts the raw value
  (a boolean is 1 or 0). When the conversion fails (a string that is no number,
  \<^verbatim>\<open>None\<close>) the method returns normally, the exception does not leave it, nothing is
  written, and the field is absent after the cycle.
\<close>

theorem battery_decoding:
  assumes lookup: "map_of (raw_data self) ''163'' = Some raw"
  shows "(\<forall>i. raw = PyInt i \<longrightarrow>
            process_battery self =
              Inr (set_parsed (\<lambda>p. p\<lparr>battery :=
                     Some (if i < 0 then 0 else if 100 < i then 100 else i)\<rparr>) self)
            \<and> (\<exists>self'. process_battery self = Inr self'
                  \<and> battery (parsed_data self') =
                      Some (if i < 0 then 0 else if 100 < i then 100 else i))
            \<and> (\<exists>self'. process_data self now = Inr self'
                  \<and> battery (parsed_data self') =
                      Some (if i < 0 then 0 else if 100 < i then 100 else i)))
       \<and> (\<forall>n. py_int raw = Inr n \<longrightarrow>
            process_battery self =
              Inr (set_parsed (\<lambda>p. p\<lparr>battery := Some (max 0 (min 100 n))\<rparr>) self)
            \<and> (\<exists>self'. process_battery self = Inr self'
                  \<and> battery (parsed_data self') = Some (max 0 (min 100 n)))
            \<and> (\<exists>self'. process_data self now = Inr self'
                  \<and> battery (parsed_data self') = Some (max 0 (min 100 n))))
       \<and> (\<forall>e. py_int raw = Inl e \<longrightarrow>
            process_battery self = Inr self
            \<and> (\<exists>self'. process_data self now = Inr self'
                  \<and> battery (parsed_data self') = None))
       \<and> (\<forall>b. raw = PyBool b \<longrightarrow>
            (\<exists>self'. process_data self now = Inr self'
               \<and> battery (parsed_data self') = Some (if b then 1 else 0)))
       \<and> (raw = PyNone \<longrightarrow>
            process_battery self = Inr self
            \<and> (\<exists>self'. process_data self now = Inr self'
                  \<and> battery (parsed_data self') = None))"
proof -
  have stores: "\<exists>self'. r = Inr self' \<and> battery (parsed_data self') = Some v"
    if "r = Inr (set_parsed (\<lambda>p. p\<lparr>battery := Some v\<rparr>) self)"
    for r :: "py_exception + coordinator" and v
    using that unfolding set_parsed_def by simp
  have whole: "\<exists>self'. process_data self now = Inr self'
      \<and> battery (parsed_data self') = decode_battery raw"
    using cycle_battery [of self now] lookup by simp
  have converted: "process_battery self =
        Inr (set_parsed (\<lambda>p. p\<lparr>battery := Some (max 0 (min 100 n))\<rparr>) self)
      \<and> (\<exists>self'. process_battery self = Inr self'
            \<and> battery (parsed_data self') = Some (max 0 (min 100 n)))
      \<and> (\<exists>self'. process_data self now = Inr self'
            \<and> battery (parsed_data self') = Some (max 0 (min 100 n)))"
    if converts: "py_int raw = Inr n" for n
  proof -
    have wrote: "process_battery self =
        Inr (set_parsed (\<lambda>p. p\<lparr>battery := Some (max 0 (min 100 n))\<rparr>) self)"
      using lookup converts by (simp add: process_battery_def)
    have decoded: "decode_battery raw = Some (max 0 (min 100 n))"
      using converts by (simp add: decode_battery_def)
    from stores [OF wrote] whole decoded wrote show ?thesis
      by simp
  qed
  have failed: "process_battery self = Inr self
      \<and> (\<exists>self'. process_data self now = Inr self' \<and> battery (parsed_data self') = None)"
    if fails: "py_int raw = Inl e" for e
  proof -
    have "process_battery self = Inr self"
      using py_int_raises [OF fails] lookup fails by (auto simp add: process_battery_def)
    moreover have "decode_battery raw = None"
      using fails by (simp add: decode_battery_def)
    ultimately show ?thesis
      using whole by simp
  qed
  have clamp: "max 0 (min 100 i) = (if i < 0 then 0 else if 100 < i then 100 else i)"
    for i :: int
    by (simp add: max_def min_def)
  have int_case: "process_battery self =
        Inr (set_parsed (\<lambda>p. p\<lparr>battery :=
               Some (if i < 0 then 0 else if 100 < i then 100 else i)\<rparr>) self)
      \<and> (\<exists>self'. process_battery self = Inr self'
            \<and> battery (parsed_data self') =
                Some (if i < 0 then 0 else if 100 < i then 100 else i))
      \<and> (\<exists>self'. process_data self now = Inr self'
            \<and> battery (parsed_data self') =
                Some (if i < 0 then 0 else if 100 < i then 100 else i))"
    if is_int: "raw = PyInt i" for i
  proof -
    from is_int have "py_int raw = Inr i"
      by simp
    from converted [OF this, unfolded clamp] show ?thesis .
  qed
  have bool_case: "\<exists>self'. process_data self now = Inr self'
      \<and> battery (parsed_data self') = Some (if b then 1 else 0)"
    if "raw = PyBool b" for b
    using converted [of "if b then 1 else 0"] that by (cases b) simp_all
  have none_case: "process_battery self = Inr self
      \<and> (\<exists>self'. process_data self now = Inr self' \<and> battery (parsed_data self') = None)"
    if "raw = PyNone"
    using failed [of TypeError] that by simp
  from int_case converted failed bool_case none_case show ?thesis
    by blast
qed

theorem battery_decoding_witness:
  "result_field battery (process_battery (holding [(''163'', PyInt (- 5))])) = Some (Some 0)
   \<and> result_field battery (process_data (holding [(''163'', PyInt (- 5))]) 0) = Some (Some 0)
   \<and> result_field battery (process_battery (holding [(''163'', PyInt 150)])) = Some (Some 100)
   \<and> result_field battery (process_data (holding [(''163'', PyInt 150)]) 0) = Some (Some 100)
   \<and> result_field battery (process_battery (holding [(''163'', PyInt 85)])) = Some (Some 85)
   \<and> result_field battery (process_data (holding [(''163'', PyInt 85)]) 0) = Some (Some 85)
   \<and> result_field battery (process_data (holding [(''163'', PyStr ''85'')]) 0) = Some (Some 85)
   \<and> process_battery (holding [(''163'', PyStr ''full'')]) =
       Inr (holding [(''163'', PyStr ''full'')])
   \<and> result_field battery (process_data (holding [(''163'', PyStr ''full'')]) 0) = Some None
   \<and> result_field battery (process_data (holding [(''163'', PyNone)]) 0) = Some None"
proof -
  have l: "map_of (raw_data (holding [(''163'', v)])) ''163'' = Some v" for v
    by (simp add: raw_data_holding)
  have a: "py_int (PyStr ''85'') = Inr 85"
    by (simp add: int_of_str_def is_int_space_def is_digit_or_underscore_def is_digit_def
        digits_value_def int_max_str_digits_def)
  have b: "py_int (PyStr ''full'') = Inl ValueError"
    by (simp add: int_of_str_def is_int_space_def is_digit_or_underscore_def is_digit_def)
  from battery_decoding [OF l [of "PyInt (- 5)"], of 0]
  have r1: "result_field battery (process_battery (holding [(''163'', PyInt (- 5))])) =
        Some (Some 0)
      \<and> result_field battery (process_data (holding [(''163'', PyInt (- 5))]) 0) =
        Some (Some 0)"
    by (auto simp add: result_field_def)
  from battery_decoding [OF l [of "PyInt 150"], of 0]
  have r2: "result_field battery (process_battery (holding [(''163'', PyInt 150)])) =
        Some (Some 100)
      \<and> result_field battery (process_data (holding [(''163'', PyInt 150)]) 0) =
        Some (Some 100)"
    by (auto simp add: result_field_def)
  from battery_decoding [OF l [of "PyInt 85"], of 0]
  have r3: "result_field battery (process_battery (holding [(''163'', PyInt 85)])) =
        Some (Some 85)
      \<and> result_field battery (process_data (holding [(''163'', PyInt 85)]) 0) =
        Some (Some 85)"
    by (auto simp add: result_field_def)
  from battery_decoding [OF l [of "PyStr ''85''"], of 0] a
  have r4: "result_field battery (process_data (holding [(''163'', PyStr ''85'')]) 0) =
        Some (Some 85)"
    by (auto simp add: result_field_def)
  from battery_decoding [OF l [of "PyStr ''full''"], of 0] b
  have r5: "process_battery (holding [(''163'', PyStr ''full'')]) =
        Inr (holding [(''163'', PyStr ''full'')])
      \<and> result_field battery (process_data (holding [(''163'', PyStr ''full'')]) 0) =
        Some None"
    by (auto simp add: result_field_def)
  from battery_decoding [OF l [of PyNone], of 0]
  have r6: "result_field battery (process_data (holding [(''163'', PyNone)]) 0) = Some None"
    by (auto simp add: result_field_def)
  from r1 r2 r3 r4 r5 r6 show ?thesis
    by blast
qed

section \<open>Found and missing keys\<close>

text \<open>
  C1. A cycle always ends, and its two lists split \<^verbatim>\<open>MONITORED_KEYS\<close>: the found list is
  the monitored keys that are keys of the raw sample, the missing list is the others,
  each in the order of \<^verbatim>\<open>MONITORED_KEYS\<close>; together they hold each of the 12 keys once.
  Whether a key is found depends on the keys of the raw sample alone, not on the values.
\<close>

theorem found_missing_partition:
  "\<exists>self'. process_data self now = Inr self'
     \<and> monitored_keys_found (parsed_data self') =
         filter (\<lambda>k. k \<in> fst ` set (raw_data self)) MONITORED_KEYS
     \<and> monitored_keys_missing (parsed_data self') =
         filter (\<lambda>k. k \<notin> fst ` set (raw_data self)) MONITORED_KEYS
     \<and> distinct (monitored_keys_found (parsed_data self')
                  @ monitored_keys_missing (parsed_data self'))
     \<and> set (monitored_keys_found (parsed_data self'))
         \<union> set (monitored_keys_missing (parsed_data self')) = set MONITORED_KEYS
     \<and> set (monitored_keys_found (parsed_data self'))
         \<inter> set (monitored_keys_missing (parsed_data self')) = {}
     \<and> length (monitored_keys_found (parsed_data self'))
         + length (monitored_keys_missing (parsed_data self')) = 12"
proof -
  let ?P = "\<lambda>k. k \<in> fst ` set (raw_data self)"
  have p: "py_contains (raw_data self) = ?P"
    by (rule ext) (simp add: py_contains_iff)
  from filter_partition [OF distinct_monitored_keys, of ?P]
  have d: "distinct (filter ?P MONITORED_KEYS @ filter (\<lambda>k. \<not> ?P k) MONITORED_KEYS)"
    and s: "set (filter ?P MONITORED_KEYS @ filter (\<lambda>k. \<not> ?P k) MONITORED_KEYS)
              = set MONITORED_KEYS"
    and l: "length (filter ?P MONITORED_KEYS) + length (filter (\<lambda>k. \<not> ?P k) MONITORED_KEYS)
              = length MONITORED_KEYS"
    by blast+
  from d have i: "set (filter ?P MONITORED_KEYS) \<inter> set (filter (\<lambda>k. \<not> ?P k) MONITORED_KEYS) = {}"
    by auto
  show ?thesis
    unfolding process_data_eq p
    using d s i l by (simp add: monitored_keys_length)
qed

section \<open>A whole cycle\<close>

text \<open>
  C2, as the code has it. On the raw sample with "163" 85, "158" 2, "153" 5, "152" true
  and "167" the base64 encoding of the bytes 0, 0, 0, 0, 210, one cycle gives battery 85,
  clean speed "turbo", work status "cleaning", play/pause true and water tank 82. The
  found list is in the order of \<^verbatim>\<open>MONITORED_KEYS\<close>, that is "163", "167", "153", "152",
  "158", and the missing list is the other seven keys, "177", "178", "168", "154", "155",
  "160", "173".
\<close>

theorem scenario_cycle:
  "process_data (self\<lparr>raw_data := scenario_sample\<rparr>) now =
     Inr (self\<lparr>raw_data := scenario_sample,
               parsed_data :=
                 \<lparr>device_id = self_device_id self,
                  battery = Some 85,
                  water_tank = Some 82,
                  clean_speed = Some ''turbo'',
                  work_status = Some ''cleaning'',
                  play_pause = Some True,
                  raw_keys = [''163'', ''158'', ''153'', ''152'', ''167''],
                  monitored_keys_found = [''163'', ''167'', ''153'', ''152'', ''158''],
                  monitored_keys_missing =
                    [''177'', ''178'', ''168'', ''154'', ''155'', ''160'', ''173''],
                  last_update = now,
                  update_count = self_update_count self\<rparr>\<rparr>)"
  by (simp add: process_data_eq scenario_fields)

text \<open>
  The found list the specification gives for this scenario, "163", "167", "158", "153",
  "152", is not the one the cycle produces: "158" comes last, as in \<^verbatim>\<open>MONITORED_KEYS\<close>.
\<close>

theorem scenario_found_order_counterexample:
  "result_field monitored_keys_found (process_data (holding scenario_sample) 0) =
     Some [''163'', ''167'', ''153'', ''152'', ''158'']
   \<and> result_field monitored_keys_found (process_data (holding scenario_sample) 0) \<noteq>
     Some [''163'', ''167'', ''158'', ''153'', ''152'']"
  by (simp add: process_data_eq result_field_def raw_data_holding scenario_found)

text \<open>
  C7. After a cycle, a battery value and a water tank value that are present lie
  between 0 and 100.
\<close>

theorem percentages_in_range:
  assumes run: "process_data self now = Inr self'"
  shows "(\<forall>b. battery (parsed_data self') = Some b \<longrightarrow> 0 \<le> b \<and> b \<le> 100)
       \<and> (\<forall>w. water_tank (parsed_data self') = Some w \<longrightarrow> 0 \<le> w \<and> w \<le> 100)"
proof -
  have "0 \<le> b \<and> b \<le> 100" if "battery (parsed_data self') = Some b" for b
  proof -
    from run that
    have "Option.bind (map_of (raw_data self) ''163'') decode_battery = Some b"
      by (auto simp add: process_data_eq)
    then obtain raw where "decode_battery raw = Some b"
      by (rule bind_Some_elim)
    then show ?thesis
      by (rule decode_battery_range)
  qed
  moreover have "0 \<le> w \<and> w \<le> 100" if "water_tank (parsed_data self') = Some w" for w
  proof -
    from run that
    have "Option.bind (map_of (raw_data self) ''167'') decode_water_tank = Some w"
      by (auto simp add: process_data_eq)
    then obtain raw where "decode_water_tank raw = Some w"
      by (rule bind_Some_elim)
    then show ?thesis
      by (rule decode_water_tank_range)
  qed
  ultimately show ?thesis
    by blast
qed

theorem percentages_in_range_witness:
  "result_field battery (process_data (holding scenario_sample) 0) = Some (Some 85)
   \<and> result_field water_tank (process_data (holding scenario_sample) 0) = Some (Some 82)
   \<and> (0::int) \<le> 85 \<and> (85::int) \<le> 100 \<and> (0::int) \<le> 82 \<and> (82::int) \<le> 100"
proof -
  obtain self' where run: "process_data (holding scenario_sample) 0 = Inr self'"
    and b: "battery (parsed_data self') = Some 85"
    and w: "water_tank (parsed_data self') = Some 82"
    by (simp add: process_data_eq raw_data_holding scenario_battery scenario_water_tank)
  from percentages_in_range [OF run] b w
  have "(0::int) \<le> 85 \<and> (85::int) \<le> 100 \<and> (0::int) \<le> 82 \<and> (82::int) \<le> 100"
    by blast
  with run b w show ?thesis
    by (simp add: result_field_def)
qed

text \<open>
  C8. A cycle never raises: for every raw sample \<^verbatim>\<open>_process_data\<close> returns, and each of the
  five fields holds what its own decoder gives for the raw value under its own key
  (absent when the key is missing or the value does not decode). Storing any value,
  decodable or not, under another key leaves a field as it was.
\<close>

theorem cycle_never_fails:
  "(\<exists>self'. process_data self now = Inr self'
      \<and> battery (parsed_data self') = Option.bind (map_of (raw_data self) ''163'') decode_battery
      \<and> water_tank (parsed_data self') =
          Option.bind (map_of (raw_data self) ''167'') decode_water_tank
      \<and> clean_speed (parsed_data self') =
          Option.bind (map_of (raw_data self) ''158'') decode_clean_speed
      \<and> work_status (parsed_data self') =
          Option.bind (map_of (raw_data self) ''153'') decode_work_status
      \<and> play_pause (parsed_data self') =
          Option.bind (map_of (raw_data self) ''152'') decode_play_pause)
   \<and> (\<forall>k v. k \<noteq> ''163'' \<longrightarrow>
         result_field battery (process_data (self\<lparr>raw_data := (k, v) # raw_data self\<rparr>) now) =
         result_field battery (process_data self now))
   \<and> (\<forall>k v. k \<noteq> ''167'' \<longrightarrow>
         result_field water_tank (process_data (self\<lparr>raw_data := (k, v) # raw_data self\<rparr>) now) =
         result_field water_tank (process_data self now))
   \<and> (\<forall>k v. k \<noteq> ''158'' \<longrightarrow>
         result_field clean_speed (process_data (self\<lparr>raw_data := (k, v) # raw_data self\<rparr>) now) =
         result_field clean_speed (process_data self now))
   \<and> (\<forall>k v. k \<noteq> ''153'' \<longrightarrow>
         result_field work_status (process_data (self\<lparr>raw_data := (k, v) # raw_data self\<rparr>) now) =
         result_field work_status (process_data self now))
   \<and> (\<forall>k v. k \<noteq> ''152'' \<longrightarrow>
         result_field play_pause (process_data (self\<lparr>raw_data := (k, v) # raw_data self\<rparr>) now) =
         result_field play_pause (process_data self now))"
  by (simp add: process_data_eq result_field_def)

theorem cycle_never_fails_witness:
  "result_field battery
     (process_data ((holding scenario_sample)
        \<lparr>raw_data := (''167'', PyStr ''!'') # raw_data (holding scenario_sample)\<rparr>) 0) = Some (Some 85)
   \<and> result_field water_tank
     (process_data ((holding scenario_sample)
        \<lparr>raw_data := (''167'', PyStr ''!'') # raw_data (holding scenario_sample)\<rparr>) 0) = Some None
   \<and> result_field water_tank
     (process_data ((holding scenario_sample)
        \<lparr>raw_data := (''163'', PyStr ''full'') # raw_data (holding scenario_sample)\<rparr>) 0) = Some (Some 82)
   \<and> result_field battery
     (process_data ((holding scenario_sample)
        \<lparr>raw_data := (''163'', PyStr ''full'') # raw_data (holding scenario_sample)\<rparr>) 0) = Some None"
proof -
  have bad_tank: "decode_water_tank (PyStr ''!'') = None"
    by (simp add: decode_water_tank_def b64decode_def table_a2b_base64_def)
  have bad_battery: "decode_battery (PyStr ''full'') = None"
    by (simp add: decode_battery_def int_of_str_def is_int_space_def
        is_digit_or_underscore_def is_digit_def)
  have b: "result_field battery (process_data (holding scenario_sample) 0) = Some (Some 85)"
    and w: "result_field water_tank (process_data (holding scenario_sample) 0) = Some (Some 82)"
    by (simp_all add: process_data_eq result_field_def raw_data_holding
        scenario_battery scenario_water_tank)
  have b': "result_field battery
     (process_data ((holding scenario_sample)
        \<lparr>raw_data := (''163'', PyStr ''full'') # raw_data (holding scenario_sample)\<rparr>) 0) = Some None"
    and w': "result_field water_tank
     (process_data ((holding scenario_sample)
        \<lparr>raw_data := (''167'', PyStr ''!'') # raw_data (holding scenario_sample)\<rparr>) 0) = Some None"
    by (simp_all add: process_data_eq result_field_def bad_tank bad_battery)
  from cycle_never_fails [of "holding scenario_sample" 0] b w b' w'
  show ?thesis by simp
qed

text \<open>
  C9. Two cycles on the same raw sample with the same update count give the same battery,
  water tank, clean speed, work status, play/pause, found and missing values, whatever
  the earlier \<^verbatim>\<open>parsed_data\<close> and the clock readings were; and a second cycle run on the
  coordinator the first one left changes nothing in \<^verbatim>\<open>parsed_data\<close> but the timestamp.
\<close>

theorem cycle_idempotent:
  assumes same_raw: "raw_data a = raw_data b"
    and same_count: "self_update_count a = self_update_count b"
  shows "(\<exists>a' b'. process_data a t1 = Inr a' \<and> process_data b t2 = Inr b'
            \<and> battery (parsed_data a') = battery (parsed_data b')
            \<and> water_tank (parsed_data a') = water_tank (parsed_data b')
            \<and> clean_speed (parsed_data a') = clean_speed (parsed_data b')
            \<and> work_status (parsed_data a') = work_status (parsed_data b')
            \<and> play_pause (parsed_data a') = play_pause (parsed_data b')
            \<and> monitored_keys_found (parsed_data a') = monitored_keys_found (parsed_data b')
            \<and> monitored_keys_missing (parsed_data a') = monitored_keys_missing (parsed_data b')
            \<and> raw_keys (parsed_data a') = raw_keys (parsed_data b')
            \<and> update_count (parsed_data a') = update_count (parsed_data b'))
       \<and> (\<exists>a' a''. process_data a t1 = Inr a' \<and> process_data a' t2 = Inr a''
            \<and> parsed_data a'' = (parsed_data a')\<lparr>last_update := t2\<rparr>)"
  using same_raw same_count by (simp add: process_data_eq)

theorem cycle_idempotent_witness:
  "result_field battery (process_data (holding scenario_sample) 1) = Some (Some 85)
   \<and> result_field battery
       (process_data (set_parsed (\<lambda>p. p\<lparr>battery := Some 3, play_pause := Some False\<rparr>)
          (holding scenario_sample)) 2) = Some (Some 85)
   \<and> result_field play_pause
       (process_data (set_parsed (\<lambda>p. p\<lparr>battery := Some 3, play_pause := Some False\<rparr>)
          (holding scenario_sample)) 2) = Some (Some True)"
  using cycle_idempotent
    [of "holding scenario_sample"
        "set_parsed (\<lambda>p. p\<lparr>battery := Some 3, play_pause := Some False\<rparr>) (holding scenario_sample)"
        1 2]
  by (simp add: process_data_eq result_field_def raw_data_holding scenario_battery
      scenario_play_pause)

section \<open>Water tank (key 167)\<close>

text \<open>
  C3, as the code has it. With a string under key 167: when the string is the base64
  encoding of at least five bytes, \<^verbatim>\<open>_process_water_tank\<close> stores in the field
  \<^verbatim>\<open>water_tank\<close> the value min(100, floor(b * 100 / 255)) for the byte \<open>b\<close> at offset 4
  (82 for the encoding of 0, 0, 0, 0, 210), and when it is the encoding of four bytes or
  fewer nothing is written and the field is absent after the cycle. The same holds for
  any string with the bytes \<^verbatim>\<open>b64decode\<close> returns for it. When \<^verbatim>\<open>b64decode\<close> rejects
  the string, the exception does not leave the method and the field is absent after the
  cycle. Not every malformed string is rejected: the decoder skips characters outside
  the alphabet and ignores what follows complete padding.
\<close>

theorem water_tank_decoding:
  assumes lookup: "map_of (raw_data self) ''167'' = Some (PyStr s)"
  shows "(\<forall>bs. s = b64encode bs \<and> 5 \<le> length bs \<longrightarrow>
            process_water_tank self =
              Inr (set_parsed (\<lambda>p. p\<lparr>water_tank :=
                     Some (min 100 ((uint (bs ! 4) * 100) div 255))\<rparr>) self)
            \<and> (\<exists>self'. process_water_tank self = Inr self'
                  \<and> water_tank (parsed_data self') =
                      Some (min 100 ((uint (bs ! 4) * 100) div 255)))
            \<and> (\<exists>self'. process_data self now = Inr self'
                  \<and> water_tank (parsed_data self') =
                      Some (min 100 ((uint (bs ! 4) * 100) div 255))))
       \<and> (\<forall>bs. s = b64encode bs \<and> length bs \<le> 4 \<longrightarrow>
            process_water_tank self = Inr self
            \<and> (\<exists>self'. process_data self now = Inr self'
                  \<and> water_tank (parsed_data self') = None))
       \<and> (\<forall>bs. b64decode s = Inr bs \<and> 5 \<le> length bs \<longrightarrow>
            process_water_tank self =
              Inr (set_parsed (\<lambda>p. p\<lparr>water_tank :=
                     Some (min 100 ((uint (bs ! 4) * 100) div 255))\<rparr>) self)
            \<and> (\<exists>self'. process_water_tank self = Inr self'
                  \<and> water_tank (parsed_data self') =
                      Some (min 100 ((uint (bs ! 4) * 100) div 255)))
            \<and> (\<exists>self'. process_data self now = Inr self'
                  \<and> water_tank (parsed_data self') =
                      Some (min 100 ((uint (bs ! 4) * 100) div 255))))
       \<and> (\<forall>bs. b64decode s = Inr bs \<and> length bs \<le> 4 \<longrightarrow>
            process_water_tank self = Inr self
            \<and> (\<exists>self'. process_data self now = Inr self'
                  \<and> water_tank (parsed_data self') = None))
       \<and> (\<forall>e. b64decode s = Inl e \<longrightarrow>
            process_water_tank self = Inr self
            \<and> (\<exists>self'. process_data self now = Inr self'
                  \<and> water_tank (parsed_data self') = None))"
proof -
  have stores: "\<exists>self'. r = Inr self' \<and> water_tank (parsed_data self') = Some v"
    if "r = Inr (set_parsed (\<lambda>p. p\<lparr>water_tank := Some v\<rparr>) self)"
    for r :: "py_exception + coordinator" and v
    using that unfolding set_parsed_def by simp
  have whole: "\<exists>self'. process_data self now = Inr self'
      \<and> water_tank (parsed_data self') = decode_water_tank (PyStr s)"
    using cycle_water_tank [of self now] lookup by simp
  have decoded: "process_water_tank self =
        Inr (set_parsed (\<lambda>p. p\<lparr>water_tank :=
               Some (min 100 ((uint (bs ! 4) * 100) div 255))\<rparr>) self)
      \<and> (\<exists>self'. process_water_tank self = Inr self'
            \<and> water_tank (parsed_data self') =
                Some (min 100 ((uint (bs ! 4) * 100) div 255)))
      \<and> (\<exists>self'. process_data self now = Inr self'
            \<and> water_tank (parsed_data self') =
                Some (min 100 ((uint (bs ! 4) * 100) div 255)))"
    if bytes: "b64decode s = Inr bs" "5 \<le> length bs" for bs
  proof -
    have wrote: "process_water_tank self =
        Inr (set_parsed (\<lambda>p. p\<lparr>water_tank :=
               Some (min 100 ((uint (bs ! 4) * 100) div 255))\<rparr>) self)"
      using lookup bytes by (simp add: process_water_tank_def)
    have field: "decode_water_tank (PyStr s) = Some (min 100 ((uint (bs ! 4) * 100) div 255))"
      using bytes by (simp add: decode_water_tank_def)
    from stores [OF wrote] whole field wrote show ?thesis
      by simp
  qed
  have short: "process_water_tank self = Inr self
      \<and> (\<exists>self'. process_data self now = Inr self'
            \<and> water_tank (parsed_data self') = None)"
    if bytes: "b64decode s = Inr bs" "length bs \<le> 4" for bs
  proof -
    have "process_water_tank self = Inr self"
      using lookup bytes by (simp add: process_water_tank_def)
    moreover have "decode_water_tank (PyStr s) = None"
      using bytes by (simp add: decode_water_tank_def)
    ultimately show ?thesis
      using whole by simp
  qed
  have rejected: "process_water_tank self = Inr self
      \<and> (\<exists>self'. process_data self now = Inr self'
            \<and> water_tank (parsed_data self') = None)"
    if raised: "b64decode s = Inl e" for e
  proof -
    have "process_water_tank self = Inr self"
      using lookup raised by (simp add: process_water_tank_def)
    moreover have "decode_water_tank (PyStr s) = None"
      using raised by (simp add: decode_water_tank_def)
    ultimately show ?thesis
      using whole by simp
  qed
  have encoded: "b64decode s = Inr bs" if "s = b64encode bs" for bs
    using that by (simp add: b64decode_b64encode)
  from decoded short rejected encoded show ?thesis
    by blast
qed

theorem water_tank_decoding_witness:
  "b64encode [0, 0, 0, 0, 210] = ''AAAAANI=''
   \<and> result_field water_tank (process_water_tank (holding [(''167'', PyStr ''AAAAANI='')])) =
       Some (Some 82)
   \<and> result_field water_tank (process_data (holding [(''167'', PyStr ''AAAAANI='')]) 0) =
       Some (Some 82)
   \<and> b64encode [0, 0, 0, 210] = ''AAAA0g==''
   \<and> process_water_tank (holding [(''167'', PyStr ''AAAA0g=='')]) =
       Inr (holding [(''167'', PyStr ''AAAA0g=='')])
   \<and> result_field water_tank (process_data (holding [(''167'', PyStr ''AAAA0g=='')]) 0) =
       Some None
   \<and> b64decode ''AAAAANI'' = Inl BinasciiError
   \<and> process_water_tank (holding [(''167'', PyStr ''AAAAANI'')]) =
       Inr (holding [(''167'', PyStr ''AAAAANI'')])
   \<and> result_field water_tank (process_data (holding [(''167'', PyStr ''AAAAANI'')]) 0) =
       Some None"
proof -
  let ?five = "holding [(''167'', PyStr ''AAAAANI='')]"
  let ?four = "holding [(''167'', PyStr ''AAAA0g=='')]"
  let ?bad = "holding [(''167'', PyStr ''AAAAANI'')]"
  have e5: "b64encode [0, 0, 0, 0, 210] = ''AAAAANI=''"
    by (rule scenario_encoding)
  have e4: "b64encode [0, 0, 0, 210] = ''AAAA0g==''"
    by (simp add: b2a_def table_b2a_base64_def)
  have bad: "b64decode ''AAAAANI'' = Inl BinasciiError"
    by (simp add: b64decode_def table_a2b_base64_def)
  have l5: "map_of (raw_data ?five) ''167'' = Some (PyStr ''AAAAANI='')"
    and l4: "map_of (raw_data ?four) ''167'' = Some (PyStr ''AAAA0g=='')"
    and lb: "map_of (raw_data ?bad) ''167'' = Some (PyStr ''AAAAANI'')"
    by (simp_all add: raw_data_holding)
  have pct: "min 100 ((uint ([0, 0, 0, 0, 210 :: byte] ! 4) * 100) div 255) = 82"
    by simp
  from water_tank_decoding [OF l5, of 0]
  have "''AAAAANI='' = b64encode [0, 0, 0, 0, 210] \<and> 5 \<le> length [0, 0, 0, 0, 210 :: byte] \<longrightarrow>
        (\<exists>self'. process_water_tank ?five = Inr self'
           \<and> water_tank (parsed_data self') =
               Some (min 100 ((uint ([0, 0, 0, 0, 210 :: byte] ! 4) * 100) div 255)))
        \<and> (\<exists>self'. process_data ?five 0 = Inr self'
             \<and> water_tank (parsed_data self') =
                 Some (min 100 ((uint ([0, 0, 0, 0, 210 :: byte] ! 4) * 100) div 255)))"
    by blast
  with e5 pct
  have r5: "result_field water_tank (process_water_tank ?five) = Some (Some 82)
      \<and> result_field water_tank (process_data ?five 0) = Some (Some 82)"
    by (auto simp add: result_field_def)
  from water_tank_decoding [OF l4, of 0]
  have "''AAAA0g=='' = b64encode [0, 0, 0, 210] \<and> length [0, 0, 0, 210 :: byte] \<le> 4 \<longrightarrow>
        process_water_tank ?four = Inr ?four
        \<and> (\<exists>self'. process_data ?four 0 = Inr self' \<and> water_tank (parsed_data self') = None)"
    by blast
  with e4
  have r4: "process_water_tank ?four = Inr ?four
      \<and> result_field water_tank (process_data ?four 0) = Some None"
    by (auto simp add: result_field_def)
  from water_tank_decoding [OF lb, of 0]
  have "b64decode ''AAAAANI'' = Inl BinasciiError \<longrightarrow>
        process_water_tank ?bad = Inr ?bad
        \<and> (\<exists>self'. process_data ?bad 0 = Inr self' \<and> water_tank (parsed_data self') = None)"
    by blast
  with bad
  have rb: "process_water_tank ?bad = Inr ?bad
      \<and> result_field water_tank (process_data ?bad 0) = Some None"
    by (auto simp add: result_field_def)
  from e5 r5 e4 r4 bad rb show ?thesis
    by blast
qed

text \<open>
  The claim as the specification states it (malformed base64 gives absent) fails at the
  string \<^verbatim>\<open>AAAA!ANI=\<close>. It is not well-formed base64: the character \<^verbatim>\<open>!\<close> is outside
  the alphabet. The decoder skips it and reads the bytes 0, 0, 0, 0, 210: after the
  method, and after a whole cycle, the field holds 82 and is not absent.
\<close>

theorem water_tank_malformed_counterexample:
  "\<not> b64_wellformed ''AAAA!ANI=''
   \<and> table_a2b_base64 CHR ''!'' = None
   \<and> b64decode ''AAAA!ANI='' = Inr [0, 0, 0, 0, 210]
   \<and> process_water_tank (holding [(''167'', PyStr ''AAAA!ANI='')]) =
       Inr (set_parsed (\<lambda>p. p\<lparr>water_tank := Some 82\<rparr>)
              (holding [(''167'', PyStr ''AAAA!ANI='')]))
   \<and> process_water_tank (holding [(''167'', PyStr ''AAAA!ANI='')]) \<noteq>
       Inr (holding [(''167'', PyStr ''AAAA!ANI='')])
   \<and> result_field water_tank (process_water_tank (holding [(''167'', PyStr ''AAAA!ANI='')])) =
       Some (Some 82)
   \<and> result_field water_tank (process_data (holding [(''167'', PyStr ''AAAA!ANI='')]) 0) =
       Some (Some 82)
   \<and> result_field water_tank (process_data (holding [(''167'', PyStr ''AAAA!ANI='')]) 0) \<noteq>
       Some None"
proof -
  have d: "b64decode ''AAAA!ANI='' = Inr [0, 0, 0, 0, 210]"
    by (simp add: b64decode_def table_a2b_base64_def)
  have w: "\<not> b64_wellformed ''AAAA!ANI=''" and t: "table_a2b_base64 CHR ''!'' = None"
    by (simp_all add: b64_wellformed_def table_a2b_base64_def)
  have wrote: "process_water_tank (holding [(''167'', PyStr ''AAAA!ANI='')]) =
        Inr (set_parsed (\<lambda>p. p\<lparr>water_tank := Some 82\<rparr>)
               (holding [(''167'', PyStr ''AAAA!ANI='')]))
      \<and> process_water_tank (holding [(''167'', PyStr ''AAAA!ANI='')]) \<noteq>
        Inr (holding [(''167'', PyStr ''AAAA!ANI='')])
      \<and> result_field water_tank
          (process_water_tank (holding [(''167'', PyStr ''AAAA!ANI='')])) = Some (Some 82)"
    using d
    by (simp add: process_water_tank_def result_field_def holding_def init_coordinator_def
        set_parsed_def empty_parsed_def)
  have whole: "result_field water_tank
        (process_data (holding [(''167'', PyStr ''AAAA!ANI='')]) 0) = Some (Some 82)"
    using d
    by (simp add: result_field_def process_data_eq decode_water_tank_def raw_data_holding)
  from whole have present: "result_field water_tank
        (process_data (holding [(''167'', PyStr ''AAAA!ANI='')]) 0) \<noteq> Some None"
    by simp
  from d w t wrote whole present show ?thesis
    by blast
qed

end
